theory Spec2Isabelle
  imports Complex_Main "HOL-Library.Word"
begin

section \<open>Python values, errors and slices\<close>

text \<open>
  The development follows \<^verbatim>\<open>src/dlai/backend/modern_chatbot.py\<close>. A Python \<^verbatim>\<open>str\<close> is a list of
  code points; every literal of the modelled functions lies in Latin-1, so \<^typ>\<open>char\<close>
  holds one code point. An exception is a value of \<open>error\<close>, and a function that can
  raise returns \<open>error + 'a\<close> with \<open>Inl\<close> for the raise.
\<close>

datatype error = Exception string | KeyError string | ValueError string

text \<open>\<^verbatim>\<open>str(e)\<close> of a raised exception.\<close>

fun str_of_error :: "error \<Rightarrow> string" where
  "str_of_error (Exception m) = m"
| "str_of_error (KeyError m) = m"
| "str_of_error (ValueError m) = m"

text \<open>The values that appear in result rows and in the response dictionary.\<close>

datatype pyval =
    VNone
  | VStr string
  | VBool bool
  | VFloat real
  | VList "pyval list"
  | VDict "(string \<times> pyval) list"

text \<open>
  \<^verbatim>\<open>xs[i:]\<close> and \<^verbatim>\<open>xs[:i]\<close>: a negative index counts from the end and both clamp to the
  list, so \<^verbatim>\<open>xs[-0:]\<close> is \<^verbatim>\<open>xs[0:]\<close>, the whole list.
\<close>

definition py_slice_from :: "int \<Rightarrow> 'a list \<Rightarrow> 'a list" where
  "py_slice_from i xs =
     (if i < 0 then drop (nat (int (length xs) + i)) xs else drop (nat i) xs)"

definition py_slice_to :: "int \<Rightarrow> 'a list \<Rightarrow> 'a list" where
  "py_slice_to i xs =
     (if i < 0 then take (nat (int (length xs) + i)) xs else take (nat i) xs)"

section \<open>Session memory\<close>

record ConversationTurn =
  question :: string
  answer :: string
  sql_used :: string
  timestamp :: real
  session_id :: string

record SessionMemory =
  sessions :: "string \<rightharpoonup> ConversationTurn list"
  max_turns :: int

text \<open>\<^verbatim>\<open>SessionMemory.__init__\<close>: no session, the given bound (10 when none is given).\<close>

definition SessionMemory_init :: "int \<Rightarrow> SessionMemory" where
  "SessionMemory_init max_turns_per_session =
     \<lparr>sessions = Map.empty, max_turns = max_turns_per_session\<rparr>"

text \<open>
  \<^verbatim>\<open>add_turn\<close>; \<open>now\<close> is the reading of \<^verbatim>\<open>datetime.now()\<close> taken for the turn. The
  list is appended to and, when longer than \<open>max_turns\<close>, replaced by the slice
  \<^verbatim>\<open>[-self.max_turns:]\<close>.
\<close>

definition add_turn ::
  "SessionMemory \<Rightarrow> string \<Rightarrow> string \<Rightarrow> string \<Rightarrow> string \<Rightarrow> real \<Rightarrow> SessionMemory" where
  "add_turn mem sid q a sql now =
     (let old = (case sessions mem sid of None \<Rightarrow> [] | Some ts \<Rightarrow> ts);
          turn = \<lparr>question = q, answer = a, sql_used = sql, timestamp = now,
                  session_id = sid\<rparr>;
          appended = old @ [turn];
          kept = (if int (length appended) > max_turns mem
                  then py_slice_from (- max_turns mem) appended
                  else appended)
      in mem\<lparr>sessions := (sessions mem)(sid \<mapsto> kept)\<rparr>)"

section \<open>Strings\<close>

text \<open>
  \<^verbatim>\<open>str.lower\<close>, \<^verbatim>\<open>str.strip\<close>, \<^verbatim>\<open>needle in hay\<close> and \<^verbatim>\<open>sep.join\<close> on Latin-1 code
  points: the upper-case letters are A to Z and U+00C0 to U+00DE without U+00D7, and
  the white space is U+0009 to U+000D, U+001C to U+0020, U+0085 and U+00A0.
\<close>

definition is_upper :: "char \<Rightarrow> bool" where
  "is_upper c =
     (let n = (of_char c :: nat)
      in (65 \<le> n \<and> n \<le> 90) \<or> (192 \<le> n \<and> n \<le> 222 \<and> n \<noteq> 215))"

definition lower :: "string \<Rightarrow> string" where
  "lower s = map (\<lambda>c. if is_upper c then char_of ((of_char c :: nat) + 32) else c) s"

definition is_space :: "char \<Rightarrow> bool" where
  "is_space c =
     (let n = (of_char c :: nat)
      in (9 \<le> n \<and> n \<le> 13) \<or> (28 \<le> n \<and> n \<le> 32) \<or> n = 133 \<or> n = 160)"

definition strip :: "string \<Rightarrow> string" where
  "strip s = rev (dropWhile is_space (rev (dropWhile is_space s)))"

fun startswith :: "string \<Rightarrow> string \<Rightarrow> bool" where
  "startswith hay [] = True"
| "startswith [] (n # ns) = False"
| "startswith (h # hs) (n # ns) = (h = n \<and> startswith hs ns)"

fun py_in :: "string \<Rightarrow> string \<Rightarrow> bool" where
  "py_in needle [] = (needle = [])"
| "py_in needle (h # hs) = (startswith (h # hs) needle \<or> py_in needle hs)"

fun join :: "string \<Rightarrow> string list \<Rightarrow> string" where
  "join sep [] = []"
| "join sep [x] = x"
| "join sep (x # y # ys) = x @ sep @ join sep (y # ys)"

fun str_of_nat :: "nat \<Rightarrow> string" where
  "str_of_nat n =
     (if n < 10 then [char_of (48 + n)]
      else str_of_nat (n div 10) @ [char_of (48 + n mod 10)])"

section \<open>Follow-up detection and conversation context\<close>

text \<open>
  The dictionary \<^verbatim>\<open>validate_follow_up_question\<close> returns: \<^verbatim>\<open>valid\<close> and \<^verbatim>\<open>message\<close>
  are always present, \<^verbatim>\<open>is_follow_up\<close> and \<^verbatim>\<open>context_available\<close> only on some paths
  (\<open>None\<close> is the absent key).
\<close>

record validation =
  valid :: bool
  is_follow_up :: "bool option"
  context_available :: "string option"
  message :: string

definition follow_up_keywords :: "string list" where
  "follow_up_keywords =
     [''anteriormente'', ''mencion'' @ [CHR 0xC3, CHR 0xA9], ''mencionaste'', ''dijiste'',
      ''esa'', ''ese'', ''esos'', ''esas'', ''aquella'', ''aquel'',
      ''la anterior'', ''el anterior'', ''antes'', ''previamente'']"

definition validate_follow_up_question ::
  "SessionMemory \<Rightarrow> string \<Rightarrow> string \<Rightarrow> validation" where
  "validate_follow_up_question mem sid q =
     (case sessions mem sid of
        None \<Rightarrow>
          \<lparr>valid = True, is_follow_up = None, context_available = None, message = []\<rparr>
      | Some [] \<Rightarrow>
          \<lparr>valid = True, is_follow_up = None, context_available = None, message = []\<rparr>
      | Some (t # ts) \<Rightarrow>
          (let question_lower = lower q;
               detected = list_ex (\<lambda>keyword. py_in keyword question_lower) follow_up_keywords
           in if detected then
                (let previous_questions = map (\<lambda>turn. lower (question turn)) (t # ts);
                     context_summary = join '' '' previous_questions
                 in \<lparr>valid = True, is_follow_up = Some True,
                     context_available = Some context_summary,
                     message = ''Follow-up question detected. Previous context: ''
                       @ py_slice_to 200 context_summary @ ''...''\<rparr>)
              else \<lparr>valid = True, is_follow_up = Some False, context_available = None,
                    message = []\<rparr>))"

text \<open>\<^verbatim>\<open>validation.get("is_follow_up", False)\<close>.\<close>

definition get_is_follow_up :: "validation \<Rightarrow> bool" where
  "get_is_follow_up v = (case is_follow_up v of None \<Rightarrow> False | Some b \<Rightarrow> b)"

text \<open>\<^verbatim>\<open>validation.get('context_available', '')\<close>.\<close>

definition get_context_available :: "validation \<Rightarrow> string" where
  "get_context_available v = (case context_available v of None \<Rightarrow> [] | Some c \<Rightarrow> c)"

definition turn_lines :: "nat \<times> ConversationTurn \<Rightarrow> string list" where
  "turn_lines p =
     (case p of (i, turn) \<Rightarrow>
        [''Turn '' @ str_of_nat i @ '':'',
         ''  User asked: '' @ question turn,
         ''  Response summary: '' @ py_slice_to 150 (answer turn) @ ''...'',
         ''  SQL executed: '' @ sql_used turn,
         []])"

definition get_conversation_context :: "SessionMemory \<Rightarrow> string \<Rightarrow> string" where
  "get_conversation_context mem sid =
     (case sessions mem sid of
        None \<Rightarrow> []
      | Some [] \<Rightarrow> []
      | Some (t # ts) \<Rightarrow>
          (let last5 = py_slice_from (- 5) (t # ts);
               context_parts =
                 [''CONVERSATION HISTORY (Previous questions in this session):'']
                 @ concat (map turn_lines (zip [1 ..< Suc (length last5)] last5))
                 @ [''IMPORTANT: Only reference information that was actually mentioned in previous questions.'']
           in join [CHR 0x0A] context_parts))"

section \<open>numpy scalars\<close>

text \<open>
  The embeddings are float32 arrays, and \<^verbatim>\<open>np.dot\<close>, \<^verbatim>\<open>np.linalg.norm\<close>, their
  product and the quotient are float32 scalars. Such a scalar is a finite real, a
  \<open>NaN\<close> or an infinity; an array is the list of the reals its components stand for.
  Signed zeros are not told apart: the only divisor of the program is a product of
  norms, which is never negative.

  \<open>fl32\<close> rounds a real to binary32: to the nearest value with 24 significant bits in
  the binade of the real, ties to the even one, with gradual underflow below
  \<open>2 powi (- 126)\<close> and overflow to an infinity from \<open>2 powi 128\<close> on.
\<close>

datatype npfloat = Finite real | NaN | PosInf | NegInf

definition round_half_even :: "real \<Rightarrow> int" where
  "round_half_even y =
     (let f = \<lfloor>y\<rfloor>
      in if y - of_int f < 1 / 2 then f
         else if 1 / 2 < y - of_int f then f + 1
         else if even f then f else f + 1)"

definition fl32 :: "real \<Rightarrow> npfloat" where
  "fl32 x =
     (if x = 0 then Finite 0
      else
        (let a = \<bar>x\<bar>;
             e = max \<lfloor>log 2 a\<rfloor> (- 126);
             u = 2 powi (e - 23);
             r = of_int (round_half_even (a / u)) * u
         in if 2 powi 128 \<le> r then (if 0 < x then PosInf else NegInf)
            else Finite (sgn x * r)))"

text \<open>
  The arithmetic of float32 scalars: the exact result, rounded. None of the operations
  raises: a zero divisor gives \<open>NaN\<close> for \<open>0 / 0\<close> and an infinity otherwise (numpy
  emits a RuntimeWarning).
\<close>

fun negate :: "npfloat \<Rightarrow> npfloat" where
  "negate (Finite a) = Finite (- a)"
| "negate NaN = NaN"
| "negate PosInf = NegInf"
| "negate NegInf = PosInf"

fun f32_add :: "npfloat \<Rightarrow> npfloat \<Rightarrow> npfloat" where
  "f32_add (Finite a) (Finite b) = fl32 (a + b)"
| "f32_add NaN y = NaN"
| "f32_add x NaN = NaN"
| "f32_add PosInf NegInf = NaN"
| "f32_add NegInf PosInf = NaN"
| "f32_add PosInf y = PosInf"
| "f32_add NegInf y = NegInf"
| "f32_add (Finite a) y = y"

fun f32_mul :: "npfloat \<Rightarrow> npfloat \<Rightarrow> npfloat" where
  "f32_mul (Finite a) (Finite b) = fl32 (a * b)"
| "f32_mul NaN y = NaN"
| "f32_mul x NaN = NaN"
| "f32_mul (Finite a) y = (if a = 0 then NaN else if 0 < a then y else negate y)"
| "f32_mul x (Finite b) = (if b = 0 then NaN else if 0 < b then x else negate x)"
| "f32_mul PosInf y = y"
| "f32_mul NegInf y = negate y"

fun f32_div :: "npfloat \<Rightarrow> npfloat \<Rightarrow> npfloat" where
  "f32_div (Finite a) (Finite b) =
     (if b = 0 then (if a = 0 then NaN else if 0 < a then PosInf else NegInf)
      else fl32 (a / b))"
| "f32_div NaN y = NaN"
| "f32_div x NaN = NaN"
| "f32_div (Finite a) y = Finite 0"
| "f32_div x (Finite b) = (if 0 \<le> b then x else negate x)"
| "f32_div x y = NaN"

fun f32_sqrt :: "npfloat \<Rightarrow> npfloat" where
  "f32_sqrt (Finite a) = (if a < 0 then NaN else fl32 (sqrt a))"
| "f32_sqrt PosInf = PosInf"
| "f32_sqrt x = NaN"

text \<open>The comparison \<^verbatim>\<open>>\<close> of two scalars: false whenever one of them is \<open>NaN\<close>.\<close>

fun np_gt :: "npfloat \<Rightarrow> npfloat \<Rightarrow> bool" where
  "np_gt (Finite a) (Finite b) = (b < a)"
| "np_gt (Finite a) NegInf = True"
| "np_gt PosInf (Finite b) = True"
| "np_gt PosInf NegInf = True"
| "np_gt _ _ = False"

section \<open>Dictionaries\<close>

text \<open>
  A Python \<^verbatim>\<open>dict\<close> is a list of pairs in insertion order with distinct keys:
  \<^verbatim>\<open>d[k] = v\<close> replaces the value of a present key where it stands and appends an
  absent one; \<^verbatim>\<open>d[k]\<close> raises KeyError on an absent key (\<open>None\<close> of \<open>dict_get\<close>).
\<close>

fun dict_set :: "'k \<Rightarrow> 'v \<Rightarrow> ('k \<times> 'v) list \<Rightarrow> ('k \<times> 'v) list" where
  "dict_set k v [] = [(k, v)]"
| "dict_set k v (p # ps) = (if fst p = k then (k, v) # ps else p # dict_set k v ps)"

fun dict_get :: "('k \<times> 'v) list \<Rightarrow> 'k \<Rightarrow> 'v option" where
  "dict_get [] k = None"
| "dict_get (p # ps) k = (if fst p = k then Some (snd p) else dict_get ps k)"

type_synonym response = "(string \<times> pyval) list"

section \<open>Structured outputs and external services\<close>

record SQLQuery =
  sql :: string
  reasoning :: string
  business_context :: string
  confidence :: real
  requires_execution :: bool

record DataInsight =
  key_finding :: string
  supporting_metrics :: "string list"
  recommendations :: "string list"
  related_questions :: "string list"

record BusinessConcept =
  natural_term :: string
  sql_pattern :: string
  required_columns :: "string list"
  context_keywords :: "string list"

text \<open>
  The two prompts, by the values their templates interpolate (the fixed text and the
  schema summary, computed once at start-up, are the same in every call).
  \<open>SqlPrompt concept conversation_context follow_up context question\<close>: \<open>concept\<close> is the
  matched business concept rendered in the pattern block (\<open>None\<close>: no block) and
  \<open>follow_up\<close> the previous context rendered in the follow-up instruction (\<open>None\<close>: no
  instruction). \<open>InsightPrompt question rows\<close> carries the first five result rows.
\<close>

datatype prompt =
    SqlPrompt "BusinessConcept option" string "string option" string string
  | InsightPrompt string "pyval list"

text \<open>
  What the program calls and does not define: the sentence-transformer model, numpy's
  \<^verbatim>\<open>dot\<close> and \<^verbatim>\<open>linalg.norm\<close> on float32 arrays (the order and the width in which
  they accumulate are the library's, so their results are taken as given; \<^verbatim>\<open>dot\<close>
  raises on arrays of different lengths), the operand a Python float becomes in a
  comparison with a float32 scalar (the float itself under numpy 1, its rounding to
  float32 under numpy 2), hashlib's
  md5 (of the UTF-8 encoding; a digest has 128 bits), the chat-completion endpoint, the
  parsing and validation of its JSON content into each structured output, the DuckDB
  connection, the readings of \<^verbatim>\<open>datetime.now()\<close> of one invocation in call order, and
  \<^verbatim>\<open>str(uuid.uuid4())\<close>. Each service is a function of its argument: whether a call
  returns or raises, and what it returns, depends on the argument alone. Nothing else
  is assumed of any of them.
\<close>

record services =
  encode :: "string \<Rightarrow> error + real list"
  np_dot :: "real list \<Rightarrow> real list \<Rightarrow> error + npfloat"
  np_norm :: "real list \<Rightarrow> npfloat"
  python_float :: "real \<Rightarrow> npfloat"
  md5 :: "string \<Rightarrow> 128 word"
  chat_completion :: "prompt \<Rightarrow> error + string"
  parse_SQLQuery :: "string \<Rightarrow> error + SQLQuery"
  parse_DataInsight :: "string \<Rightarrow> error + DataInsight"
  db_execute :: "string \<Rightarrow> error + pyval list"
  now :: "nat \<Rightarrow> real"
  uuid4 :: string

section \<open>Semantic cache\<close>

text \<open>The field \<^verbatim>\<open>timestamp\<close> of a cache entry is \<open>entry_timestamp\<close> here.\<close>

record CacheEntry =
  query_embedding :: "real list"
  sql_query :: string
  results :: response
  entry_timestamp :: real
  hit_count :: int

record SemanticCache =
  cache :: "(string \<times> CacheEntry) list"
  similarity_threshold :: real

text \<open>
  \<^verbatim>\<open>SemanticCache.__init__\<close>: \<^verbatim>\<open>similarity_threshold or float(os.getenv(...))\<close> takes
  the environment's value (0.85 when unset) for \<^verbatim>\<open>None\<close> and for 0, and any other
  argument as it is.
\<close>

definition SemanticCache_init :: "real option \<Rightarrow> real \<Rightarrow> SemanticCache" where
  "SemanticCache_init threshold_arg env_threshold =
     \<lparr>cache = [],
      similarity_threshold =
        (case threshold_arg of
           None \<Rightarrow> env_threshold
         | Some t \<Rightarrow> if t = 0 then env_threshold else t)\<rparr>"

definition hex_digit :: "nat \<Rightarrow> char" where
  "hex_digit n = (if n < 10 then char_of (48 + n) else char_of (87 + n))"

definition hexdigest :: "128 word \<Rightarrow> string" where
  "hexdigest w =
     map (\<lambda>i. hex_digit (unat (take_bit 4 (drop_bit (4 * (31 - i)) w)))) [0 ..< 32]"

definition get_query_key :: "services \<Rightarrow> string \<Rightarrow> string" where
  "get_query_key sv query = hexdigest (md5 sv (strip (lower query)))"

text \<open>
  The expression \<^verbatim>\<open>np.dot(q, e) / (np.linalg.norm(q) * np.linalg.norm(e))\<close> of both
  similarity loops. No test of the divisor comes before the division.
\<close>

definition cosine :: "services \<Rightarrow> real list \<Rightarrow> real list \<Rightarrow> error + npfloat" where
  "cosine sv q e =
     (case np_dot sv q e of
        Inl err \<Rightarrow> Inl err
      | Inr d \<Rightarrow> Inr (f32_div d (f32_mul (np_norm sv q) (np_norm sv e))))"

text \<open>
  The loop of \<^verbatim>\<open>get_similar_query\<close> over \<^verbatim>\<open>self.cache.values()\<close>. \<open>best_match\<close> is the
  position of the entry the variable refers to; \<open>i\<close> is the position of the entry at
  hand.
\<close>

fun similarity_loop ::
  "services \<Rightarrow> real list \<Rightarrow> real \<Rightarrow> CacheEntry list \<Rightarrow> nat \<Rightarrow> nat option \<Rightarrow> npfloat
     \<Rightarrow> error + nat option" where
  "similarity_loop sv q_embedding threshold [] i best_match best_similarity = Inr best_match"
| "similarity_loop sv q_embedding threshold (entry # rest) i best_match best_similarity =
     (case cosine sv q_embedding (query_embedding entry) of
        Inl err \<Rightarrow> Inl err
      | Inr similarity \<Rightarrow>
          if np_gt similarity best_similarity
             \<and> np_gt similarity (python_float sv threshold)
          then similarity_loop sv q_embedding threshold rest (Suc i) (Some i) similarity
          else similarity_loop sv q_embedding threshold rest (Suc i) best_match
                 best_similarity)"

text \<open>
  \<^verbatim>\<open>get_similar_query\<close> returns the cache as the call leaves it and the entry returned
  (\<open>None\<close>: no match). The matched entry is mutated in place, so the entry returned is
  the stored one after \<^verbatim>\<open>hit_count += 1\<close>.
\<close>

definition get_similar_query ::
  "services \<Rightarrow> SemanticCache \<Rightarrow> string \<Rightarrow> error + (SemanticCache \<times> CacheEntry option)" where
  "get_similar_query sv c query =
     (case encode sv query of
        Inl err \<Rightarrow> Inl err
      | Inr q_embedding \<Rightarrow>
          (case similarity_loop sv q_embedding (similarity_threshold c)
                  (map snd (cache c)) 0 None (Finite 0) of
             Inl err \<Rightarrow> Inl err
           | Inr None \<Rightarrow> Inr (c, None)
           | Inr (Some i) \<Rightarrow>
               (let key = fst (cache c ! i);
                    best_match = (snd (cache c ! i))
                      \<lparr>hit_count := hit_count (snd (cache c ! i)) + 1\<rparr>
                in Inr (c\<lparr>cache := (cache c)[i := (key, best_match)]\<rparr>, Some best_match))))"

text \<open>
  \<^verbatim>\<open>store_query\<close>; \<open>t\<close> is the reading of \<^verbatim>\<open>datetime.now()\<close> for the entry, and
  \<^verbatim>\<open>hit_count\<close> takes its default 0.
\<close>

definition store_query ::
  "services \<Rightarrow> SemanticCache \<Rightarrow> string \<Rightarrow> string \<Rightarrow> response \<Rightarrow> real \<Rightarrow> error + SemanticCache" where
  "store_query sv c query sql_text res t =
     (let key = get_query_key sv query
      in case encode sv query of
           Inl err \<Rightarrow> Inl err
         | Inr embedding \<Rightarrow>
             Inr (c\<lparr>cache := dict_set key
                    \<lparr>query_embedding = embedding, sql_query = sql_text, results = res,
                     entry_timestamp = t, hit_count = 0\<rparr> (cache c)\<rparr>))"

section \<open>Business concepts\<close>

record BusinessIntelligence =
  concepts :: "BusinessConcept list"
  concept_embeddings :: "(string \<times> real list) list"

definition initialize_business_concepts :: "BusinessConcept list" where
  "initialize_business_concepts =
     [\<lparr>natural_term = ''performance por regi'' @ [CHR 0xC3, CHR 0xB3] @ ''n'',
       sql_pattern = ''SELECT region, SUM(revenue) as total_revenue, AVG(conversion_rate) as avg_conversion FROM {table} GROUP BY region'',
       required_columns = [''region'', ''revenue'', ''conversion_rate''],
       context_keywords = [''regi'' @ [CHR 0xC3, CHR 0xB3] @ ''n'', ''area'', ''zona'',
         ''geographical'', ''performance regional'']\<rparr>,
      \<lparr>natural_term = ''mejor tipo de tienda'',
       sql_pattern = ''SELECT tipo_tienda, COUNT(*) as tiendas, AVG(revenue) as avg_revenue FROM {table} GROUP BY tipo_tienda ORDER BY avg_revenue DESC'',
       required_columns = [''tipo_tienda'', ''revenue''],
       context_keywords = [''tipo'', ''formato'', ''mall'', ''street'', ''outlet'',
         ''store type'']\<rparr>,
      \<lparr>natural_term = ''impacto del experimento'',
       sql_pattern = ''SELECT experimento, AVG(conversion_rate) as avg_conversion, AVG(revenue) as avg_revenue FROM {table} GROUP BY experimento'',
       required_columns = [''experimento'', ''conversion_rate'', ''revenue''],
       context_keywords = [''a/b test'', ''experiment'', ''control'', ''test'',
         ''treatment'']\<rparr>,
      \<lparr>natural_term = ''tiendas con mejor conversi'' @ [CHR 0xC3, CHR 0xB3] @ ''n'',
       sql_pattern = ''SELECT tienda_id, tipo_tienda, region, conversion_rate, revenue FROM {table} WHERE conversion_rate > (SELECT AVG(conversion_rate) FROM {table}) ORDER BY conversion_rate DESC'',
       required_columns = [''tienda_id'', ''tipo_tienda'', ''region'', ''conversion_rate'',
         ''revenue''],
       context_keywords = [''top performers'', ''best stores'', ''high conversion'',
         ''mejores tiendas'']\<rparr>]"

text \<open>\<^verbatim>\<open>_initialize_concept_embeddings\<close>: one embedding per concept, keyed by its term.\<close>

fun initialize_concept_embeddings ::
  "services \<Rightarrow> BusinessConcept list \<Rightarrow> (string \<times> real list) list
     \<Rightarrow> error + (string \<times> real list) list" where
  "initialize_concept_embeddings sv [] embs = Inr embs"
| "initialize_concept_embeddings sv (concept # rest) embs =
     (let concept_text = natural_term concept @ '' '' @ join '' '' (context_keywords concept)
      in case encode sv concept_text of
           Inl err \<Rightarrow> Inl err
         | Inr embedding \<Rightarrow>
             initialize_concept_embeddings sv rest
               (dict_set (natural_term concept) embedding embs))"

definition BusinessIntelligence_init :: "services \<Rightarrow> error + BusinessIntelligence" where
  "BusinessIntelligence_init sv =
     (case initialize_concept_embeddings sv initialize_business_concepts [] of
        Inl err \<Rightarrow> Inl err
      | Inr embs \<Rightarrow>
          Inr \<lparr>concepts = initialize_business_concepts, concept_embeddings = embs\<rparr>)"

text \<open>The second loop of \<^verbatim>\<open>find_relevant_concept\<close>, with its threshold 0.6.\<close>

fun concept_loop ::
  "services \<Rightarrow> real list \<Rightarrow> (string \<times> real list) list \<Rightarrow> BusinessConcept list
     \<Rightarrow> BusinessConcept option \<Rightarrow> npfloat \<Rightarrow> error + BusinessConcept option" where
  "concept_loop sv q_embedding embs [] best_concept best_similarity = Inr best_concept"
| "concept_loop sv q_embedding embs (concept # rest) best_concept best_similarity =
     (case dict_get embs (natural_term concept) of
        None \<Rightarrow> Inl (KeyError (natural_term concept))
      | Some concept_embedding \<Rightarrow>
          (case cosine sv q_embedding concept_embedding of
             Inl err \<Rightarrow> Inl err
           | Inr similarity \<Rightarrow>
               if np_gt similarity best_similarity
                  \<and> np_gt similarity (python_float sv (6 / 10))
               then concept_loop sv q_embedding embs rest (Some concept) similarity
               else concept_loop sv q_embedding embs rest best_concept best_similarity))"

text \<open>
  \<^verbatim>\<open>find_relevant_concept\<close>: the first concept with a keyword inside the lower-cased
  question; only when there is none is the question embedded.
\<close>

definition find_relevant_concept ::
  "services \<Rightarrow> BusinessIntelligence \<Rightarrow> string \<Rightarrow> error + BusinessConcept option" where
  "find_relevant_concept sv b query =
     (let query_lower = lower query
      in case find (\<lambda>concept. list_ex (\<lambda>keyword. py_in keyword query_lower)
                      (context_keywords concept)) (concepts b) of
           Some concept \<Rightarrow> Inr (Some concept)
         | None \<Rightarrow>
             (case encode sv query of
                Inl err \<Rightarrow> Inl err
              | Inr q_embedding \<Rightarrow>
                  concept_loop sv q_embedding (concept_embeddings b) (concepts b) None
                    (Finite 0)))"

section \<open>The chatbot\<close>

text \<open>
  The attributes of \<^verbatim>\<open>ModernDataChatbot\<close> that \<^verbatim>\<open>ask\<close> reads or writes:
  \<^verbatim>\<open>self.cache\<close> (here \<open>semantic_cache\<close>), \<^verbatim>\<open>self.bi\<close> and \<^verbatim>\<open>self.memory\<close>, and of
  \<^verbatim>\<open>self.db\<close> the statements the connection has received, in order (\<open>executed\<close>).
\<close>

record ModernDataChatbot =
  semantic_cache :: SemanticCache
  bi :: BusinessIntelligence
  memory :: SessionMemory
  executed :: "string list"

text \<open>
  The \<^verbatim>\<open>except\<close> branch of \<^verbatim>\<open>_generate_sql_with_structured_output\<close>;
  \<^verbatim>\<open>requires_execution\<close> is not given there and takes its default \<^verbatim>\<open>True\<close>.
\<close>

definition fallback_query :: "error \<Rightarrow> SQLQuery" where
  "fallback_query e =
     \<lparr>sql = ''SELECT * FROM tiendas LIMIT 10'',
      reasoning = ''Error in SQL generation: '' @ str_of_error e,
      business_context = ''Unable to generate proper query'',
      confidence = 1 / 10,
      requires_execution = True\<rparr>"

text \<open>
  The prompt of \<^verbatim>\<open>_generate_sql_with_structured_output\<close> for a matched concept.
  \<^verbatim>\<open>if session_id:\<close> is false for \<^verbatim>\<open>None\<close> and for the empty string; only a true one
  brings the conversation context and, for a detected follow-up, the instruction with
  the first 300 characters of the previous questions.
\<close>

definition sql_prompt ::
  "ModernDataChatbot \<Rightarrow> string \<Rightarrow> string \<Rightarrow> string option \<Rightarrow> BusinessConcept option
     \<Rightarrow> prompt" where
  "sql_prompt self q context sid_opt relevant_concept =
     (let session_given = (case sid_opt of None \<Rightarrow> False | Some sid \<Rightarrow> sid \<noteq> []);
          sid = (case sid_opt of None \<Rightarrow> [] | Some sid \<Rightarrow> sid);
          conversation_context =
            (if session_given then get_conversation_context (memory self) sid else []);
          validation = validate_follow_up_question (memory self) sid q;
          follow_up_instruction =
            (if session_given \<and> get_is_follow_up validation
             then Some (py_slice_to 300 (get_context_available validation))
             else None)
      in SqlPrompt relevant_concept conversation_context follow_up_instruction context q)"

text \<open>
  \<^verbatim>\<open>_generate_sql_with_structured_output\<close>. The concept search and the building of the
  prompt come before the \<^verbatim>\<open>try\<close>; the completion call, \<^verbatim>\<open>json.loads\<close> and the
  construction of the \<^verbatim>\<open>SQLQuery\<close> are inside it.
\<close>

definition generate_sql_with_structured_output ::
  "services \<Rightarrow> ModernDataChatbot \<Rightarrow> string \<Rightarrow> string \<Rightarrow> string option \<Rightarrow> error + SQLQuery" where
  "generate_sql_with_structured_output sv self q context sid_opt =
     (case find_relevant_concept sv (bi self) q of
        Inl err \<Rightarrow> Inl err
      | Inr relevant_concept \<Rightarrow>
          (case chat_completion sv (sql_prompt self q context sid_opt relevant_concept) of
             Inl e \<Rightarrow> Inr (fallback_query e)
           | Inr content \<Rightarrow>
               (case parse_SQLQuery sv content of
                  Inl e \<Rightarrow> Inr (fallback_query e)
                | Inr result \<Rightarrow> Inr result)))"

text \<open>
  \<^verbatim>\<open>self.db.execute(sql)\<close>: the connection receives the statement, and answers with
  rows or raises. \<open>received\<close> is what it has received before.
\<close>

definition db_call ::
  "services \<Rightarrow> string list \<Rightarrow> string \<Rightarrow> string list \<times> (error + pyval list)" where
  "db_call sv received sql_text = (received @ [sql_text], db_execute sv sql_text)"

text \<open>
  \<^verbatim>\<open>_execute_query\<close>: the statement goes to the connection, and an error of the engine
  becomes a single error row.
\<close>

definition execute_query ::
  "services \<Rightarrow> string list \<Rightarrow> string \<Rightarrow> string list \<times> pyval list" where
  "execute_query sv received sql_text =
     (case db_call sv received sql_text of
        (received', Inl e) \<Rightarrow> (received', [VDict [(''error'', VStr (str_of_error e))]])
      | (received', Inr rows) \<Rightarrow> (received', rows))"

definition trivial_patterns :: "string list" where
  "trivial_patterns =
     [''chatgpt'', ''gpt'', ''openai'', ''sos'', ''eres'', ''who are you'', ''what are you'',
      ''hola'', ''hello'', ''hi'', ''buenos d'' @ [CHR 0xC3, CHR 0xAD] @ ''as'',
      ''good morning'', ''como estas'', ''how are you'', ''gracias'', ''thank you'',
      ''adi'' @ [CHR 0xC3, CHR 0xB3] @ ''s'', ''goodbye'']"

definition identity_insight :: DataInsight where
  "identity_insight =
     \<lparr>key_finding = ''Soy un asistente de an'' @ [CHR 0xC3, CHR 0xA1] @ ''lisis de datos para Gatorade, basado en IA pero especializado en el an'' @ [CHR 0xC3, CHR 0xA1] @ ''lisis de experimentos y m'' @ [CHR 0xC3, CHR 0xA9] @ ''tricas de negocio.'',
      supporting_metrics =
        [''Capacidad de an'' @ [CHR 0xC3, CHR 0xA1] @ ''lisis de datos de tiendas'',
         ''Memoria conversacional'',
         ''Consultas SQL autom'' @ [CHR 0xC3, CHR 0xA1] @ ''ticas''],
      recommendations =
        [''Prueba preguntas como '' @ [CHR 0x27, CHR 0xC2, CHR 0xBF] @ ''Cu'' @ [CHR 0xC3, CHR 0xA1] @ ''ntas tiendas tenemos por regi'' @ [CHR 0xC3, CHR 0xB3] @ ''n?'' @ [CHR 0x27],
         ''Explora los experimentos con '' @ [CHR 0x27, CHR 0xC2, CHR 0xBF] @ ''Qu'' @ [CHR 0xC3, CHR 0xA9] @ '' experimentos se han realizado?'' @ [CHR 0x27]],
      related_questions =
        [[CHR 0xC2, CHR 0xBF] @ ''Qu'' @ [CHR 0xC3, CHR 0xA9] @ '' puedes hacer?'',
         [CHR 0xC2, CHR 0xBF] @ ''Qu'' @ [CHR 0xC3, CHR 0xA9] @ '' datos tienes disponibles?'',
         [CHR 0xC2, CHR 0xBF] @ ''C'' @ [CHR 0xC3, CHR 0xB3] @ ''mo puedo analizar experimentos?'']\<rparr>"

definition greeting_insight :: DataInsight where
  "greeting_insight =
     \<lparr>key_finding = [CHR 0xC2, CHR 0xA1] @ ''Hola! Soy tu asistente de an'' @ [CHR 0xC3, CHR 0xA1] @ ''lisis de datos para Gatorade. Estoy aqu'' @ [CHR 0xC3, CHR 0xAD] @ '' para ayudarte a analizar experimentos, m'' @ [CHR 0xC3, CHR 0xA9] @ ''tricas de tiendas y datos de negocio.'',
      supporting_metrics =
        [''200 tiendas en la base de datos'',
         ''An'' @ [CHR 0xC3, CHR 0xA1] @ ''lisis por regiones disponible'',
         ''Datos de experimentos A/B''],
      recommendations =
        [''Empieza con una pregunta sobre las tiendas'',
         ''Explora los experimentos realizados'',
         ''Analiza m'' @ [CHR 0xC3, CHR 0xA9] @ ''tricas por regi'' @ [CHR 0xC3, CHR 0xB3] @ ''n''],
      related_questions =
        [[CHR 0xC2, CHR 0xBF] @ ''Cu'' @ [CHR 0xC3, CHR 0xA1] @ ''ntas tiendas tenemos?'',
         [CHR 0xC2, CHR 0xBF] @ ''Qu'' @ [CHR 0xC3, CHR 0xA9] @ '' experimentos hay disponibles?'',
         [CHR 0xC2, CHR 0xBF] @ ''C'' @ [CHR 0xC3, CHR 0xB3] @ ''mo est'' @ [CHR 0xC3, CHR 0xA1] @ '' el performance por regi'' @ [CHR 0xC3, CHR 0xB3] @ ''n?'']\<rparr>"

definition fallback_insight :: DataInsight where
  "fallback_insight =
     \<lparr>key_finding = ''Unable to generate insights'', supporting_metrics = [],
      recommendations = [], related_questions = []\<rparr>"

text \<open>
  The first part of \<^verbatim>\<open>_generate_insights\<close>: for a question with a trivial pattern, the
  canned answer to an identity question or to a greeting; \<open>None\<close> when the method goes
  on to the language model. The rows are not looked at.
\<close>

definition canned_insight :: "string \<Rightarrow> DataInsight option" where
  "canned_insight q =
     (let question_lower = lower q;
          is_trivial = list_ex (\<lambda>pattern. py_in (lower pattern) question_lower)
                         trivial_patterns
      in if is_trivial then
           (if py_in ''chatgpt'' question_lower \<or> py_in ''gpt'' question_lower
            then Some identity_insight
            else if list_ex (\<lambda>greet. py_in greet question_lower)
                      [''hola'', ''hello'', ''hi'',
                       ''buenos d'' @ [CHR 0xC3, CHR 0xAD] @ ''as'']
            then Some greeting_insight
            else None)
         else None)"

text \<open>
  \<^verbatim>\<open>_generate_insights\<close>: a canned answer, otherwise the completion over the first five
  rows, with its own fallback.
\<close>

definition generate_insights :: "services \<Rightarrow> string \<Rightarrow> pyval list \<Rightarrow> DataInsight" where
  "generate_insights sv q rows =
     (case canned_insight q of
        Some insight \<Rightarrow> insight
      | None \<Rightarrow>
          (case chat_completion sv (InsightPrompt q (py_slice_to 5 rows)) of
             Inl e \<Rightarrow> fallback_insight
           | Inr content \<Rightarrow>
               (case parse_DataInsight sv content of
                  Inl e \<Rightarrow> fallback_insight
                | Inr result \<Rightarrow> result)))"

text \<open>
  The dictionary \<^verbatim>\<open>ask\<close> returns on a cache hit, built from the matched entry; a key
  missing from the stored results raises KeyError.
\<close>

definition cached_response :: "string \<Rightarrow> CacheEntry \<Rightarrow> real \<Rightarrow> error + response" where
  "cached_response q cached_result execution_time =
     (case dict_get (results cached_result) ''answer'' of
        None \<Rightarrow> Inl (KeyError ''answer'')
      | Some a \<Rightarrow>
          (case dict_get (results cached_result) ''data'' of
             None \<Rightarrow> Inl (KeyError ''data'')
           | Some d \<Rightarrow>
               (case dict_get (results cached_result) ''insights'' of
                  None \<Rightarrow> Inl (KeyError ''insights'')
                | Some ins \<Rightarrow>
                    Inr [(''question'', VStr q),
                         (''answer'', a),
                         (''data'', d),
                         (''insights'', ins),
                         (''sql_used'', VStr (sql_query cached_result)),
                         (''cached'', VBool True),
                         (''execution_time'', VFloat execution_time)])))"

text \<open>The row substituted when no SQL is executed.\<close>

definition placeholder_rows :: "pyval list" where
  "placeholder_rows =
     [VDict [(''message'', VStr ''No SQL execution required''),
             (''type'', VStr ''meta_response'')]]"

text \<open>The value of \<^verbatim>\<open>response["answer"]\<close>, which step 7 reads back for the turn.\<close>

definition answer_text :: "DataInsight \<Rightarrow> SQLQuery \<Rightarrow> string" where
  "answer_text insights sql_q =
     key_finding insights @ [CHR 0x0A, CHR 0x0A] @ ''**Business Context:** ''
       @ business_context sql_q"

text \<open>The dictionary under \<^verbatim>\<open>"insights"\<close> in step 5 of \<^verbatim>\<open>ask\<close>.\<close>

definition insights_dict :: "DataInsight \<Rightarrow> pyval" where
  "insights_dict insights =
     VDict
       [(''key_finding'', VStr (key_finding insights)),
        (''supporting_metrics'', VList (map VStr (supporting_metrics insights))),
        (''recommendations'', VList (map VStr (recommendations insights))),
        (''related_questions'', VList (map VStr (related_questions insights)))]"

text \<open>The dictionary built in step 5 of \<^verbatim>\<open>ask\<close>, before \<^verbatim>\<open>session_id\<close> is added.\<close>

definition build_response ::
  "string \<Rightarrow> SQLQuery \<Rightarrow> pyval list \<Rightarrow> DataInsight \<Rightarrow> real \<Rightarrow> response" where
  "build_response q sql_q rows insights execution_time =
     [(''question'', VStr q),
      (''answer'', VStr (answer_text insights sql_q)),
      (''data'', VList rows),
      (''insights'', insights_dict insights),
      (''sql_used'', VStr (sql sql_q)),
      (''sql_executed'', VBool (requires_execution sql_q)),
      (''reasoning'', VStr (reasoning sql_q)),
      (''confidence'', VFloat (confidence sql_q)),
      (''cached'', VBool False),
      (''execution_time'', VFloat execution_time)]"

text \<open>
  \<^verbatim>\<open>ask\<close> returns the chatbot as the call leaves it, also when it raises, and the
  dictionary or the exception. The follow-up validation of step 0 only feeds a debug
  print. The dictionary stored in the cache is the object that receives
  \<^verbatim>\<open>session_id\<close> in step 8, so the stored results carry that key as well.
\<close>

definition ask ::
  "services \<Rightarrow> ModernDataChatbot \<Rightarrow> string \<Rightarrow> string option
     \<Rightarrow> ModernDataChatbot \<times> (error + response)" where
  "ask sv self q session_id_arg =
     (let start_time = now sv 0;
          sid = (case session_id_arg of None \<Rightarrow> uuid4 sv | Some s \<Rightarrow> s);
          validation = validate_follow_up_question (memory self) sid q
      in case get_similar_query sv (semantic_cache self) q of
           Inl err \<Rightarrow> (self, Inl err)
         | Inr (c1, Some cached_result) \<Rightarrow>
             (self\<lparr>semantic_cache := c1\<rparr>,
              cached_response q cached_result (now sv 1 - start_time))
         | Inr (c1, None) \<Rightarrow>
             (case generate_sql_with_structured_output sv self q [] (Some sid) of
                Inl err \<Rightarrow> (self, Inl err)
              | Inr sql_q \<Rightarrow>
                  (let (received, rows) =
                         (if requires_execution sql_q
                          then execute_query sv (executed self) (sql sql_q)
                          else (executed self, placeholder_rows));
                       self1 = self\<lparr>executed := received\<rparr>;
                       insights = generate_insights sv q rows;
                       resp = build_response q sql_q rows insights (now sv 1 - start_time);
                       final = dict_set ''session_id'' (VStr sid) resp
                   in case store_query sv c1 q (sql sql_q) final (now sv 2) of
                        Inl err \<Rightarrow> (self1, Inl err)
                      | Inr c2 \<Rightarrow>
                          (self1\<lparr>semantic_cache := c2,
                             memory := add_turn (memory self) sid q
                               (answer_text insights sql_q) (sql sql_q) (now sv 3)\<rparr>,
                           Inr final))))"

section \<open>Notions used in the statements\<close>

text \<open>The last \<open>n\<close> elements of a list, in their order.\<close>

definition recent :: "nat \<Rightarrow> 'a list \<Rightarrow> 'a list" where
  "recent n xs = drop (length xs - n) xs"

text \<open>The turns stored for a session; none for an unknown session.\<close>

definition session_turns :: "SessionMemory \<Rightarrow> string \<Rightarrow> ConversationTurn list" where
  "session_turns mem sid = (case sessions mem sid of None \<Rightarrow> [] | Some ts \<Rightarrow> ts)"

text \<open>
  A call of \<^verbatim>\<open>add_turn\<close> is the tuple of its arguments and of the clock reading it takes;
  \<open>make_turn\<close> is the turn that call appends, \<open>add_turns\<close> runs calls in order.
\<close>

definition make_turn :: "string \<times> string \<times> string \<times> string \<times> real \<Rightarrow> ConversationTurn" where
  "make_turn c = (case c of (sid, q, a, s, t) \<Rightarrow>
     \<lparr>question = q, answer = a, sql_used = s, timestamp = t, session_id = sid\<rparr>)"

fun add_turns :: "SessionMemory \<Rightarrow> (string \<times> string \<times> string \<times> string \<times> real) list \<Rightarrow> SessionMemory" where
  "add_turns mem [] = mem"
| "add_turns mem ((sid, q, a, s, t) # calls) = add_turns (add_turn mem sid q a s t) calls"

text \<open>
  \<^verbatim>\<open>np.dot\<close> returns on the query and every stored embedding (they have one dimension).
\<close>

definition dots_return :: "services \<Rightarrow> real list \<Rightarrow> CacheEntry list \<Rightarrow> bool" where
  "dots_return sv q es =
     list_all (\<lambda>e. case np_dot sv q (query_embedding e) of Inl err \<Rightarrow> False | Inr d \<Rightarrow> True) es"

text \<open>
  The similarity the loop computes for such an entry, a float32 scalar, and what the
  loop requires of it: strictly above the threshold, as the comparison takes it, and
  strictly above the initial \<^verbatim>\<open>best_similarity\<close>, which is 0.
\<close>

definition similarity_of :: "services \<Rightarrow> real list \<Rightarrow> CacheEntry \<Rightarrow> npfloat" where
  "similarity_of sv q e =
     (case cosine sv q (query_embedding e) of Inl err \<Rightarrow> NaN | Inr s \<Rightarrow> s)"

definition qualifies :: "services \<Rightarrow> real \<Rightarrow> npfloat \<Rightarrow> bool" where
  "qualifies sv threshold s =
     (np_gt s (python_float sv threshold) \<and> np_gt s (Finite 0))"

text \<open>
  Position \<open>i\<close> holds the best match: its entry qualifies, no qualifying entry is more
  similar, and every qualifying entry before it is strictly less similar (of several
  entries with the highest similarity it is the first).
\<close>

definition is_best_match ::
  "services \<Rightarrow> real list \<Rightarrow> real \<Rightarrow> CacheEntry list \<Rightarrow> nat \<Rightarrow> bool" where
  "is_best_match sv q threshold es i =
     (i < length es \<and> qualifies sv threshold (similarity_of sv q (es ! i)) \<and>
      list_all (\<lambda>e. \<not> (qualifies sv threshold (similarity_of sv q e)
                       \<and> np_gt (similarity_of sv q e) (similarity_of sv q (es ! i)))) es \<and>
      list_all (\<lambda>e. \<not> (qualifies sv threshold (similarity_of sv q e)
                       \<and> \<not> np_gt (similarity_of sv q (es ! i)) (similarity_of sv q e)))
        (take i es))"

text \<open>The variables of the loop after the entries \<open>pre\<close>.\<close>

definition loop_state ::
  "services \<Rightarrow> real list \<Rightarrow> real \<Rightarrow> CacheEntry list \<Rightarrow> nat option \<Rightarrow> npfloat \<Rightarrow> bool" where
  "loop_state sv q threshold pre best_match best_similarity =
     (case best_match of
        None \<Rightarrow> best_similarity = Finite 0
                 \<and> list_all (\<lambda>e. \<not> qualifies sv threshold (similarity_of sv q e)) pre
      | Some k \<Rightarrow> is_best_match sv q threshold pre k
                 \<and> best_similarity = similarity_of sv q (pre ! k))"

text \<open>An entry after \<^verbatim>\<open>hit_count += 1\<close>.\<close>

definition count_hit :: "CacheEntry \<Rightarrow> CacheEntry" where
  "count_hit e = e\<lparr>hit_count := hit_count e + 1\<rparr>"

text \<open>
  The session id \<^verbatim>\<open>ask\<close> works with, and the rows it hands to the insight step for a
  generated query.
\<close>

definition session_of :: "services \<Rightarrow> string option \<Rightarrow> string" where
  "session_of sv sid = (case sid of None \<Rightarrow> uuid4 sv | Some s \<Rightarrow> s)"

definition rows_of :: "services \<Rightarrow> SQLQuery \<Rightarrow> pyval list" where
  "rows_of sv sq =
     (if requires_execution sq
      then (case db_execute sv (sql sq) of
              Inl e \<Rightarrow> [VDict [(''error'', VStr (str_of_error e))]]
            | Inr rows \<Rightarrow> rows)
      else placeholder_rows)"

section \<open>A scripted run\<close>

text \<open>
  Concrete services and states on which the statements below are evaluated. The
  embedding separates questions about regions from the others, fails on a question
  that contains \<open>unavailable\<close>, is the null vector on one that contains \<open>zero\<close> and a
  vector of magnitude \<open>tiny\<close>, a float32 value, on one that contains \<open>tiny\<close>; the
  language model refuses a prompt that carries the follow-up instruction and answers
  any other with an executable query.
\<close>

definition tiny :: real where
  "tiny = 1 / 2 ^ 80"

definition demo_encode :: "string \<Rightarrow> error + real list" where
  "demo_encode s =
     (if py_in ''unavailable'' s then Inl (Exception ''embedding service unavailable'')
      else if py_in ''zero'' s then Inr [0, 0]
      else if py_in ''tiny'' s then Inr [tiny, 0]
      else if py_in ''region'' s then Inr [1, 0]
      else Inr [0, 1])"

text \<open>
  \<^verbatim>\<open>dot\<close> and \<^verbatim>\<open>linalg.norm\<close> in binary32, every product and every sum rounded, the
  sum taken in the order of the components; the norm is the square root of the dot
  product of the array with itself. On the two-component vectors of the run every
  product and sum is exact or underflows to 0, so that an accumulation in another
  order or width, or with fused products, gives the same scalars.
\<close>

definition f32_dot :: "real list \<Rightarrow> real list \<Rightarrow> error + npfloat" where
  "f32_dot a b =
     (if length a = length b
      then Inr (foldl (\<lambda>acc p. f32_add acc (f32_mul (Finite (fst p)) (Finite (snd p))))
                  (Finite 0) (zip a b))
      else Inl (ValueError ''shapes not aligned''))"

definition f32_norm :: "real list \<Rightarrow> npfloat" where
  "f32_norm a =
     f32_sqrt (foldl (\<lambda>acc x. f32_add acc (f32_mul (Finite x) (Finite x))) (Finite 0) a)"

definition refusal :: SQLQuery where
  "refusal =
     \<lparr>sql = ''SELECT 1 as mensaje;'',
      reasoning = ''El usuario pregunta sobre un tema que no fue mencionado.'',
      business_context = ''No puedo responder esta pregunta.'',
      confidence = 1 / 10,
      requires_execution = False\<rparr>"

definition region_query :: SQLQuery where
  "region_query =
     \<lparr>sql = ''SELECT region, SUM(revenue) FROM tiendas GROUP BY region'',
      reasoning = ''Aggregates revenue by region.'',
      business_context = ''Revenue by region'',
      confidence = 9 / 10,
      requires_execution = True\<rparr>"

definition demo_insight :: DataInsight where
  "demo_insight =
     \<lparr>key_finding = ''Norte leads'', supporting_metrics = [''Norte: 10''],
      recommendations = [], related_questions = []\<rparr>"

definition demo_services :: services where
  "demo_services =
     \<lparr>encode = demo_encode,
      np_dot = f32_dot,
      np_norm = f32_norm,
      python_float = Finite,
      md5 = (\<lambda>s. of_nat (length s)),
      chat_completion = (\<lambda>p. case p of
          SqlPrompt concept conversation follow_up context q \<Rightarrow>
            (if follow_up = None then Inr ''select'' else Inr ''refuse'')
        | InsightPrompt q rows \<Rightarrow> Inr ''insight''),
      parse_SQLQuery = (\<lambda>content.
          if content = ''refuse'' then Inr refusal
          else if content = ''select'' then Inr region_query
          else Inl (Exception ''malformed structured output'')),
      parse_DataInsight = (\<lambda>content.
          if content = ''insight'' then Inr demo_insight
          else Inl (Exception ''malformed structured output'')),
      db_execute = (\<lambda>s. Inr [VDict [(''region'', VStr ''Norte''), (''total'', VFloat 10)]]),
      now = real,
      uuid4 = ''00000000-0000-4000-8000-000000000000''\<rparr>"

text \<open>The same services with a language model that ignores the follow-up instruction.\<close>

definition stubborn_services :: services where
  "stubborn_services =
     demo_services\<lparr>chat_completion := (\<lambda>p. case p of
          SqlPrompt concept conversation follow_up context q \<Rightarrow> Inr ''select''
        | InsightPrompt q rows \<Rightarrow> Inr ''insight'')\<rparr>"

text \<open>The same services with a language model that answers every question without SQL.\<close>

definition terse_services :: services where
  "terse_services =
     demo_services\<lparr>chat_completion := (\<lambda>p. case p of
          SqlPrompt concept conversation follow_up context q \<Rightarrow> Inr ''refuse''
        | InsightPrompt q rows \<Rightarrow> Inr ''insight'')\<rparr>"

text \<open>The same services with a language model that times out.\<close>

definition offline_services :: services where
  "offline_services = demo_services\<lparr>chat_completion := (\<lambda>p. Inl (Exception ''timeout''))\<rparr>"

definition demo_entry :: "real list \<Rightarrow> string \<Rightarrow> CacheEntry" where
  "demo_entry emb sql_text =
     \<lparr>query_embedding = emb, sql_query = sql_text,
      results = [(''answer'', VStr ''stored''), (''data'', VList []), (''insights'', VDict [])],
      entry_timestamp = 0, hit_count = 0\<rparr>"

definition demo_cache :: SemanticCache where
  "demo_cache =
     \<lparr>cache = [(''k0'', demo_entry [0, 1] ''SELECT 0''),
               (''k1'', demo_entry [2, 0] ''SELECT 1''),
               (''k2'', demo_entry [1, 0] ''SELECT 2'')],
      similarity_threshold = 85 / 100\<rparr>"

text \<open>
  A chatbot right after start-up: the concept embeddings are those the demo embedding
  gives the four concept texts.
\<close>

definition fresh_chatbot :: ModernDataChatbot where
  "fresh_chatbot =
     \<lparr>semantic_cache = \<lparr>cache = [], similarity_threshold = 85 / 100\<rparr>,
      bi = \<lparr>concepts = initialize_business_concepts,
            concept_embeddings =
              zip (map natural_term initialize_business_concepts)
                [[1, 0], [0, 1], [0, 1], [0, 1]]\<rparr>,
      memory = SessionMemory_init 10,
      executed = []\<rparr>"

text \<open>The chatbot after one question about revenue by region in session \<open>s1\<close>.\<close>

definition talked_chatbot :: ModernDataChatbot where
  "talked_chatbot = fst (ask demo_services fresh_chatbot ''revenue por region'' (Some ''s1''))"

text \<open>What that first call returns and leaves behind.\<close>

definition demo_rows :: "pyval list" where
  "demo_rows = [VDict [(''region'', VStr ''Norte''), (''total'', VFloat 10)]]"

definition first_response :: response where
  "first_response =
     [(''question'', VStr ''revenue por region''),
      (''answer'', VStr (''Norte leads'' @ [CHR 0x0A, CHR 0x0A]
         @ ''**Business Context:** Revenue by region'')),
      (''data'', VList demo_rows),
      (''insights'', VDict
         [(''key_finding'', VStr ''Norte leads''),
          (''supporting_metrics'', VList [VStr ''Norte: 10'']),
          (''recommendations'', VList []),
          (''related_questions'', VList [])]),
      (''sql_used'', VStr ''SELECT region, SUM(revenue) FROM tiendas GROUP BY region''),
      (''sql_executed'', VBool True),
      (''reasoning'', VStr ''Aggregates revenue by region.''),
      (''confidence'', VFloat (9 / 10)),
      (''cached'', VBool False),
      (''execution_time'', VFloat 1),
      (''session_id'', VStr ''s1'')]"

definition first_entry :: CacheEntry where
  "first_entry =
     \<lparr>query_embedding = [1, 0],
      sql_query = ''SELECT region, SUM(revenue) FROM tiendas GROUP BY region'',
      results = first_response, entry_timestamp = 2, hit_count = 0\<rparr>"

definition region_turn :: ConversationTurn where
  "region_turn =
     \<lparr>question = ''revenue por region'',
      answer = ''Norte leads'' @ [CHR 0x0A, CHR 0x0A] @ ''**Business Context:** Revenue by region'',
      sql_used = ''SELECT region, SUM(revenue) FROM tiendas GROUP BY region'',
      timestamp = 3, session_id = ''s1''\<rparr>"

text \<open>A follow-up question whose referent, a product type, no turn of \<open>s1\<close> mentions.\<close>

definition follow_up_question :: string where
  "follow_up_question = ''que tipo de producto mencionaste anteriormente''"

text \<open>The value under a key of the dictionary a call of \<^verbatim>\<open>ask\<close> returned.\<close>

definition response_field ::
  "ModernDataChatbot \<times> (error + response) \<Rightarrow> string \<Rightarrow> pyval option" where
  "response_field outcome k =
     (case snd outcome of Inl err \<Rightarrow> None | Inr resp \<Rightarrow> dict_get resp k)"

text \<open>A chatbot that starts with the cache of three entries.\<close>

definition cached_chatbot :: ModernDataChatbot where
  "cached_chatbot = fresh_chatbot\<lparr>semantic_cache := demo_cache\<rparr>"

text \<open>
  A cache with the default threshold that holds one entry, at cosine 3/5 of the tiny
  vector.
\<close>

definition steep_cache :: SemanticCache where
  "steep_cache =
     (SemanticCache_init None (85 / 100))
       \<lparr>cache := [(''k0'', demo_entry [3, 4] ''SELECT 0'')]\<rparr>"

text \<open>
  A cache constructed with the threshold \<open>- 1/2\<close> that holds one entry, and the caches
  of three stores.
\<close>

definition skewed_cache :: SemanticCache where
  "skewed_cache =
     (SemanticCache_init (Some (- (1 / 2))) (85 / 100))
       \<lparr>cache := [(''k0'', demo_entry [0, 1] ''SELECT 0'')]\<rparr>"

definition empty_cache :: SemanticCache where
  "empty_cache = \<lparr>cache = [], similarity_threshold = 85 / 100\<rparr>"

definition stored_once :: SemanticCache where
  "stored_once =
     \<lparr>cache = [(''00000000000000000000000000000004'',
          \<lparr>query_embedding = [0, 1], sql_query = ''SELECT 1'', results = [],
           entry_timestamp = 1, hit_count = 0\<rparr>)],
      similarity_threshold = 85 / 100\<rparr>"

definition stored_twice :: SemanticCache where
  "stored_twice =
     \<lparr>cache = [(''00000000000000000000000000000004'',
          \<lparr>query_embedding = [0, 1], sql_query = ''SELECT 2'', results = [],
           entry_timestamp = 2, hit_count = 0\<rparr>)],
      similarity_threshold = 85 / 100\<rparr>"

definition stored_other :: SemanticCache where
  "stored_other =
     \<lparr>cache = [(''00000000000000000000000000000004'',
          \<lparr>query_embedding = [0, 1], sql_query = ''SELECT 1'', results = [],
           entry_timestamp = 1, hit_count = 0\<rparr>),
         (''00000000000000000000000000000005'',
          \<lparr>query_embedding = [0, 1], sql_query = ''SELECT 3'', results = [],
           entry_timestamp = 3, hit_count = 0\<rparr>)],
      similarity_threshold = 85 / 100\<rparr>"

section \<open>Facts about dictionaries\<close>

lemma dict_get_set_same: "dict_get (dict_set k v d) k = Some v"
  by (induction d) auto

lemma dict_get_set_other: "k' \<noteq> k \<Longrightarrow> dict_get (dict_set k v d) k' = dict_get d k'"
  by (induction d) auto

lemma dict_set_keys_present:
  "dict_get d k \<noteq> None \<Longrightarrow> map fst (dict_set k v d) = map fst d"
  by (induction d) auto

lemma set_dict_set_keys: "set (map fst (dict_set k v d)) = insert k (set (map fst d))"
  by (induction d) auto

lemma dict_set_distinct: "distinct (map fst d) \<Longrightarrow> distinct (map fst (dict_set k v d))"
proof (induction d)
  case Nil
  then show ?case by simp
next
  case (Cons p d)
  have "fst p \<noteq> k \<Longrightarrow> fst p \<notin> set (map fst (dict_set k v d))"
    using Cons.prems by (simp only: set_dict_set_keys) auto
  with Cons show ?case by auto
qed

section \<open>Session memory keeps the most recent turns\<close>

text \<open>
  With a bound of at least 1, \<^verbatim>\<open>add_turn\<close> leaves the session with the last \<open>max_turns\<close>
  of its turns, and so does any sequence of calls from the initial memory.
\<close>

lemma add_turn_max_turns [simp]: "max_turns (add_turn mem sid q a s t) = max_turns mem"
  by (simp add: add_turn_def Let_def)

lemma add_turn_same:
  assumes "1 \<le> max_turns mem"
  shows "session_turns (add_turn mem sid q a s t) sid =
    recent (nat (max_turns mem)) (session_turns mem sid @ [make_turn (sid, q, a, s, t)])"
  using assms
  by (auto simp: add_turn_def Let_def session_turns_def recent_def py_slice_from_def make_turn_def
      split: option.splits) (auto simp: nat_diff_distrib nat_add_distrib)

lemma add_turn_other:
  "sid' \<noteq> sid \<Longrightarrow> session_turns (add_turn mem sid q a s t) sid' = session_turns mem sid'"
  by (simp add: add_turn_def Let_def session_turns_def)

lemma recent_recent_snoc:
  assumes "0 < n"
  shows "recent n (recent n xs @ [x]) = recent n (xs @ [x])"
proof (cases "length xs \<le> n")
  case True
  then show ?thesis by (simp add: recent_def)
next
  case False
  with assms have "Suc (length xs) - (length xs - n + n) + (length xs - n) = Suc (length xs) - n"
    by arith
  with False assms show ?thesis by (simp add: recent_def)
qed

lemma add_turns_recent:
  assumes "1 \<le> max_turns mem" "session_turns mem sid = recent (nat (max_turns mem)) pre"
  shows "session_turns (add_turns mem calls) sid =
     recent (nat (max_turns mem)) (pre @ map make_turn (filter (\<lambda>c. fst c = sid) calls))"
  using assms
proof (induction calls arbitrary: mem pre)
  case Nil
  then show ?case by simp
next
  case (Cons c calls)
  obtain sid' q a s t where c: "c = (sid', q, a, s, t)" by (cases c) auto
  show ?case
  proof (cases "sid' = sid")
    case True
    have "session_turns (add_turn mem sid q a s t) sid =
       recent (nat (max_turns mem)) (pre @ [make_turn (sid, q, a, s, t)])"
      using Cons.prems by (simp add: add_turn_same recent_recent_snoc)
    from Cons.IH[of "add_turn mem sid q a s t" "pre @ [make_turn (sid, q, a, s, t)]"] this Cons.prems(1)
    show ?thesis by (simp add: c True)
  next
    case False
    from False have "sid \<noteq> sid'" by blast
    with Cons.IH[of "add_turn mem sid' q a s t" pre] Cons.prems
    show ?thesis by (simp add: c False add_turn_other)
  qed
qed

lemma add_turns_max_turns [simp]: "max_turns (add_turns mem calls) = max_turns mem"
  by (induction mem calls rule: add_turns.induct) auto

text \<open>
  From \<^verbatim>\<open>SessionMemory(n)\<close> with \<open>1 \<le> n\<close>, whatever calls follow, a session never holds
  more than \<open>n\<close> turns, and it holds the most recent \<open>n\<close> of the turns added to it, in
  their order of arrival.
\<close>

lemma add_turns_bound:
  assumes "1 \<le> n"
  shows "length (session_turns (add_turns (SessionMemory_init n) calls) sid) \<le> nat n
   \<and> session_turns (add_turns (SessionMemory_init n) calls) sid =
     recent (nat n) (map make_turn (filter (\<lambda>c. fst c = sid) calls))"
proof -
  have "session_turns (SessionMemory_init n) sid = recent (nat n) []"
    by (simp add: SessionMemory_init_def session_turns_def recent_def)
  from add_turns_recent[of "SessionMemory_init n" sid "[]" calls] this assms
  have *: "session_turns (add_turns (SessionMemory_init n) calls) sid =
     recent (nat n) (map make_turn (filter (\<lambda>c. fst c = sid) calls))"
    by (simp add: SessionMemory_init_def)
  show ?thesis unfolding * by (simp add: recent_def)
qed

section \<open>The similarity loop\<close>

lemma np_gt_irrefl [simp]: "\<not> np_gt a a"
  by (cases a) auto

lemma np_gt_trans: "np_gt a b \<Longrightarrow> np_gt b c \<Longrightarrow> np_gt a c"
  by (cases a; cases b; cases c) auto

lemma np_gt_above: "np_gt j t \<Longrightarrow> \<not> np_gt j k \<Longrightarrow> np_gt n k \<Longrightarrow> np_gt n j"
  by (cases j; cases t; cases k; cases n) auto

lemma np_gt_not_above: "\<not> np_gt j k \<Longrightarrow> np_gt n k \<Longrightarrow> \<not> np_gt j n"
  by (cases j; cases k; cases n) auto

lemma np_gt_not_nan [simp]: "\<not> np_gt NaN b" "\<not> np_gt a NaN"
  by (cases b; simp) (cases a; simp)

lemma cosine_returns:
  "np_dot sv q (query_embedding e) = Inr d \<Longrightarrow>
   cosine sv q (query_embedding e) = Inr (similarity_of sv q e)"
  by (simp add: cosine_def similarity_of_def)

lemma loop_state_step_take:
  assumes "loop_state sv q t pre bm bs" "s = similarity_of sv q e"
    "np_gt s bs \<and> np_gt s (python_float sv t)"
  shows "loop_state sv q t (pre @ [e]) (Some (length pre)) s"
proof (cases bm)
  case None
  with assms show ?thesis
    by (auto simp: loop_state_def is_best_match_def qualifies_def list_all_iff)
next
  case (Some k)
  with assms have k: "k < length pre" and qk: "qualifies sv t (similarity_of sv q (pre ! k))"
    and bs: "bs = similarity_of sv q (pre ! k)"
    and best: "\<And>x. x \<in> set pre \<Longrightarrow> qualifies sv t (similarity_of sv q x)
                 \<Longrightarrow> \<not> np_gt (similarity_of sv q x) (similarity_of sv q (pre ! k))"
    by (auto simp: loop_state_def is_best_match_def list_all_iff)
  have gt: "np_gt s (similarity_of sv q (pre ! k))" using assms bs by simp
  have q: "qualifies sv t s"
    using assms(3) qk gt by (auto simp: qualifies_def intro: np_gt_trans)
  have a: "\<And>x. x \<in> set pre \<Longrightarrow> qualifies sv t (similarity_of sv q x)
             \<Longrightarrow> \<not> np_gt (similarity_of sv q x) s"
    using best gt np_gt_not_above by blast
  have b: "\<And>x. x \<in> set pre \<Longrightarrow> qualifies sv t (similarity_of sv q x)
             \<Longrightarrow> np_gt s (similarity_of sv q x)"
    using best gt np_gt_above unfolding qualifies_def by blast
  show ?thesis
    using q a b assms(2)
    by (auto simp: loop_state_def is_best_match_def list_all_iff)
qed

lemma loop_state_step_keep:
  assumes "loop_state sv q t pre bm bs" "s = similarity_of sv q e"
    "\<not> (np_gt s bs \<and> np_gt s (python_float sv t))"
  shows "loop_state sv q t (pre @ [e]) bm bs"
proof (cases bm)
  case None
  with assms show ?thesis
    by (auto simp: loop_state_def qualifies_def list_all_iff)
next
  case (Some k)
  with assms show ?thesis
    by (auto simp: loop_state_def is_best_match_def qualifies_def list_all_iff nth_append)
qed

lemma similarity_loop_state:
  assumes "dots_return sv q rest" "loop_state sv q t pre bm bs"
  shows "\<exists>r. similarity_loop sv q t rest (length pre) bm bs = Inr r
            \<and> (\<exists>bs'. loop_state sv q t (pre @ rest) r bs')"
  using assms
proof (induction rest arbitrary: pre bm bs)
  case Nil
  then show ?case by auto
next
  case (Cons e rest)
  from Cons.prems(1) obtain d where dot: "np_dot sv q (query_embedding e) = Inr d"
    and rest: "dots_return sv q rest"
    by (auto simp: dots_return_def split: sum.splits)
  let ?s = "similarity_of sv q e"
  show ?case
  proof (cases "np_gt ?s bs \<and> np_gt ?s (python_float sv t)")
    case True
    from loop_state_step_take[OF Cons.prems(2) refl True]
    have "loop_state sv q t (pre @ [e]) (Some (length pre)) ?s" .
    from Cons.IH[OF rest this] True show ?thesis
      by (simp add: cosine_returns[OF dot])
  next
    case False
    from loop_state_step_keep[OF Cons.prems(2) refl False]
    have "loop_state sv q t (pre @ [e]) bm bs" .
    from Cons.IH[OF rest this] False show ?thesis
      by (auto simp: cosine_returns[OF dot])
  qed
qed

text \<open>What the loop returns when every dot product returns.\<close>

lemma similarity_loop_result:
  assumes "dots_return sv q es"
  shows "(similarity_loop sv q t es 0 None (Finite 0) = Inr None
            \<and> list_all (\<lambda>e. \<not> qualifies sv t (similarity_of sv q e)) es)
       \<or> (\<exists>i. similarity_loop sv q t es 0 None (Finite 0) = Inr (Some i)
             \<and> is_best_match sv q t es i)"
proof -
  have "loop_state sv q t [] None (Finite 0)" by (simp add: loop_state_def)
  from similarity_loop_state[OF assms this]
  obtain r bs' where r: "similarity_loop sv q t es 0 None (Finite 0) = Inr r"
    and st: "loop_state sv q t es r bs'" by auto
  show ?thesis
  proof (cases r)
    case None
    with r st show ?thesis by (simp add: loop_state_def)
  next
    case (Some i)
    with r st show ?thesis by (simp add: loop_state_def)
  qed
qed

text \<open>A loop that returns has met no failing dot product.\<close>

lemma similarity_loop_dots_return:
  "similarity_loop sv q t es n bm bs = Inr r \<Longrightarrow> dots_return sv q es"
proof (induction es arbitrary: n bm bs)
  case Nil
  then show ?case by (simp add: dots_return_def)
next
  case (Cons e es)
  from Cons.prems obtain s n' bm' bs' where c: "cosine sv q (query_embedding e) = Inr s"
    and r: "similarity_loop sv q t es n' bm' bs' = Inr r"
    by (auto split: sum.splits if_splits)
  from c obtain d where "np_dot sv q (query_embedding e) = Inr d"
    by (auto simp: cosine_def split: sum.splits)
  with Cons.IH[OF r] show ?case by (simp add: dots_return_def)
qed

lemma is_best_match_unique:
  assumes "is_best_match sv q t es i" "is_best_match sv q t es j"
  shows "i = j"
proof (rule ccontr)
  assume ne: "i \<noteq> j"
  have less: False
    if a: "is_best_match sv q t es a" and b: "is_best_match sv q t es b" and ab: "a < b"
    for a b
  proof -
    from b have lb: "b < length es" by (simp add: is_best_match_def)
    with ab have "es ! a \<in> set (take b es)"
      by (metis in_set_conv_nth length_take min.absorb2 less_imp_le nth_take)
    moreover from a have "qualifies sv t (similarity_of sv q (es ! a))"
      by (simp add: is_best_match_def)
    ultimately have "np_gt (similarity_of sv q (es ! b)) (similarity_of sv q (es ! a))"
      using b by (auto simp: is_best_match_def list_all_iff)
    moreover from b lb have "qualifies sv t (similarity_of sv q (es ! b))"
      and "es ! b \<in> set es" by (simp_all add: is_best_match_def)
    ultimately show False
      using a by (auto simp: is_best_match_def list_all_iff)
  qed
  from ne have "i < j \<or> j < i" by arith
  with less assms show False by blast
qed

lemma qualifies_strict: "\<not> qualifies sv t (python_float sv t)"
  by (simp add: qualifies_def)

lemma is_best_match_bound: "is_best_match sv q t es i \<Longrightarrow> i < length es"
  by (simp add: is_best_match_def)

lemma get_similar_query_cases:
  assumes "encode sv query = Inr q" and "dots_return sv q (map snd (cache c))"
  shows "(get_similar_query sv c query = Inr (c, None)
          \<and> list_all (\<lambda>e. \<not> qualifies sv (similarity_threshold c) (similarity_of sv q e))
                (map snd (cache c)))
       \<or> (\<exists>i. is_best_match sv q (similarity_threshold c) (map snd (cache c)) i
             \<and> get_similar_query sv c query =
                 Inr (c\<lparr>cache := (cache c)[i := (fst (cache c ! i), count_hit (snd (cache c ! i)))]\<rparr>,
                      Some (count_hit (snd (cache c ! i)))))"
  using similarity_loop_result[OF assms(2), of "similarity_threshold c"] assms(1)
  by (auto simp: get_similar_query_def Let_def count_hit_def)

subsection \<open>A zero divisor\<close>

text \<open>
  When the product of the norms is 0, the quotient is decided by the dot product alone:
  \<open>NaN\<close> for 0, which no comparison accepts, and an infinity otherwise; the positive
  one passes both comparisons of the loop.
\<close>

lemma zero_divisor_quotient:
  assumes "np_dot sv q e = Inr (Finite d)"
    and "f32_mul (np_norm sv q) (np_norm sv e) = Finite 0"
  shows "cosine sv q e = Inr (if d = 0 then NaN else if 0 < d then PosInf else NegInf)"
  using assms by (simp add: cosine_def)

lemma not_qualifies_nan [simp]: "\<not> qualifies sv t NaN"
  by (simp add: qualifies_def)

lemma positive_infinity_qualifies:
  "python_float sv t = Finite x \<Longrightarrow> qualifies sv t PosInf"
  by (simp add: qualifies_def)

section \<open>Storing\<close>

text \<open>
  A digest is read back from its 32 hexadecimal digits, so two keys are equal exactly
  when the digests are.
\<close>

lemma hex_digit_code:
  assumes "k < 16"
  shows "(of_char (hex_digit k) :: nat) = (if k < 10 then 48 + k else 87 + k)"
  using assms by (simp add: hex_digit_def)

lemma hex_digit_inj:
  assumes "m < 16" "n < 16" "hex_digit m = hex_digit n"
  shows "m = n"
proof -
  from assms(3) have "(of_char (hex_digit m) :: nat) = of_char (hex_digit n)" by simp
  then have "(if m < 10 then 48 + m else 87 + m) = (if n < 10 then 48 + n else 87 + n)"
    by (simp only: hex_digit_code[OF assms(1)] hex_digit_code[OF assms(2)])
  then show ?thesis
    by (cases "m < 10"; cases "n < 10"; simp)
qed

lemma nibble_less: "unat (take_bit 4 (w :: 128 word)) < 16"
proof -
  have "unat (take_bit 4 w) = take_bit 4 (unat w)" by (simp add: unsigned_take_bit_eq)
  also have "\<dots> < 2 ^ 4" by (rule take_bit_nat_less_exp)
  finally show ?thesis by simp
qed

lemma hexdigest_inj:
  assumes "hexdigest w = hexdigest w'"
  shows "w = w'"
proof (rule bit_word_eqI)
  fix n assume n: "n < LENGTH(128)"
  define i where "i = 31 - n div 4"
  have i: "i < 32" "4 * (31 - i) = 4 * (n div 4)" using n by (simp_all add: i_def)
  from assms have "hexdigest w ! i = hexdigest w' ! i" by simp
  with i(1) have "hex_digit (unat (take_bit 4 (drop_bit (4 * (n div 4)) w)))
      = hex_digit (unat (take_bit 4 (drop_bit (4 * (n div 4)) w')))"
    by (simp add: hexdigest_def i(2))
  from hex_digit_inj[OF nibble_less nibble_less this]
  have "take_bit 4 (drop_bit (4 * (n div 4)) w) = take_bit 4 (drop_bit (4 * (n div 4)) w')"
    by (simp add: word_unat_eq_iff)
  then have "bit (take_bit 4 (drop_bit (4 * (n div 4)) w)) (n mod 4)
      = bit (take_bit 4 (drop_bit (4 * (n div 4)) w')) (n mod 4)" by simp
  then show "bit w n = bit w' n"
    by (simp add: bit_take_bit_iff bit_drop_bit_eq)
qed

lemma get_query_key_eq_iff:
  "get_query_key sv q1 = get_query_key sv q2
     \<longleftrightarrow> md5 sv (strip (lower q1)) = md5 sv (strip (lower q2))"
  using hexdigest_inj by (auto simp: get_query_key_def)

lemma store_query_Inr:
  "store_query sv c q s r t = Inr c' \<Longrightarrow>
     \<exists>emb. encode sv q = Inr emb \<and>
       c' = c\<lparr>cache := dict_set (get_query_key sv q)
              \<lparr>query_embedding = emb, sql_query = s, results = r, entry_timestamp = t,
               hit_count = 0\<rparr> (cache c)\<rparr>"
  by (auto simp: store_query_def Let_def split: sum.splits)

lemma distinct_keys_one_entry:
  "distinct (map fst d) \<Longrightarrow> length (filter (\<lambda>p. fst p = k) d) \<le> 1"
proof (induction d)
  case Nil
  then show ?case by simp
next
  case (Cons p d)
  show ?case
  proof (cases "fst p = k")
    case True
    with Cons.prems have "k \<notin> fst ` set d" by auto
    then have "filter (\<lambda>p. fst p = k) d = []"
      by (auto simp: filter_empty_conv)
    with True show ?thesis by simp
  next
    case False
    with Cons show ?thesis by simp
  qed
qed

lemma distinct_key_one_entry:
  assumes "distinct (map fst d)" and "dict_get d k \<noteq> None"
  shows "length (filter (\<lambda>p. fst p = k) d) = 1"
proof -
  from assms(2) have "1 \<le> length (filter (\<lambda>p. fst p = k) d)"
    by (induction d) (auto split: if_splits)
  with distinct_keys_one_entry[OF assms(1), of k] show ?thesis by simp
qed

section \<open>The paths of ask\<close>

lemma get_similar_query_miss:
  "get_similar_query sv c query = Inr (c', None) \<Longrightarrow> c' = c \<and> (\<exists>qe. encode sv query = Inr qe)"
  by (auto simp: get_similar_query_def Let_def split: sum.splits option.splits)

lemma build_response_cached:
  "dict_get (dict_set ''session_id'' v (build_response q sq rows ins t)) ''cached'' = Some (VBool False)"
  by (simp add: build_response_def)

lemma ask_lookup_raises:
  "get_similar_query sv (semantic_cache self) q = Inl err \<Longrightarrow> ask sv self q sid = (self, Inl err)"
  by (simp add: ask_def Let_def)

lemma ask_hit:
  "get_similar_query sv (semantic_cache self) q = Inr (c1, Some e) \<Longrightarrow>
   ask sv self q sid = (self\<lparr>semantic_cache := c1\<rparr>, cached_response q e (now sv 1 - now sv 0))"
  by (simp add: ask_def Let_def)

lemma ask_miss:
  assumes "get_similar_query sv (semantic_cache self) q = Inr (c1, None)"
    and "generate_sql_with_structured_output sv self q [] (Some (session_of sv sid)) = Inr sq"
  shows "\<exists>c2. store_query sv (semantic_cache self) q (sql sq)
            (dict_set ''session_id'' (VStr (session_of sv sid))
              (build_response q sq (rows_of sv sq) (generate_insights sv q (rows_of sv sq)) (now sv 1 - now sv 0)))
            (now sv 2) = Inr c2 \<and>
     ask sv self q sid =
       (self\<lparr>executed := executed self @ (if requires_execution sq then [sql sq] else []),
             semantic_cache := c2,
             memory := add_turn (memory self) (session_of sv sid) q
                (answer_text (generate_insights sv q (rows_of sv sq)) sq) (sql sq) (now sv 3)\<rparr>,
        Inr (dict_set ''session_id'' (VStr (session_of sv sid))
              (build_response q sq (rows_of sv sq) (generate_insights sv q (rows_of sv sq)) (now sv 1 - now sv 0))))"
proof -
  from get_similar_query_miss[OF assms(1)] obtain qe where c1: "c1 = semantic_cache self"
    and enc: "encode sv q = Inr qe" by blast
  show ?thesis
    using assms enc
    by (cases "db_execute sv (sql sq)")
       (simp_all add: ask_def Let_def session_of_def rows_of_def store_query_def c1
          execute_query_def db_call_def)
qed

lemma ask_generation_raises:
  assumes "get_similar_query sv (semantic_cache self) q = Inr (c1, None)"
    and "generate_sql_with_structured_output sv self q [] (Some (session_of sv sid)) = Inl err"
  shows "ask sv self q sid = (self, Inl err)"
  using assms by (simp add: ask_def Let_def session_of_def)

lemma response_field_Inr: "response_field (s, Inr resp) k = dict_get resp k"
  by (simp add: response_field_def)

lemma build_response_fields:
  "dict_get (dict_set ''session_id'' v (build_response q sq rows ins t)) ''sql_executed''
     = Some (VBool (requires_execution sq))"
  "dict_get (dict_set ''session_id'' v (build_response q sq rows ins t)) ''confidence''
     = Some (VFloat (confidence sq))"
  "dict_get (dict_set ''session_id'' v (build_response q sq rows ins t)) ''data''
     = Some (VList rows)"
  "dict_get (dict_set ''session_id'' v (build_response q sq rows ins t)) ''session_id''
     = Some v"
  by (simp_all add: build_response_def)


section \<open>Rounding to binary32\<close>

text \<open>
  A real with at most 24 significant bits inside the normal range is its own rounding,
  and a real below half the least subnormal rounds to 0.
\<close>

lemma round_half_even_int [simp]: "round_half_even (of_int n) = n"
  by (simp add: round_half_even_def)

lemma floor_log2:
  assumes "2 powi e \<le> a" "a < 2 powi (e + 1)"
  shows "\<lfloor>log 2 a\<rfloor> = e"
proof -
  have "(0::real) < 2 powi e" by simp
  with assms(1) have pos: "0 < a" by linarith
  have p: "(2::real) powr real_of_int k = 2 powi k" for k
    using powr_real_of_int'[of 2 k] by simp
  have "real_of_int e + 1 = real_of_int (e + 1)" by simp
  then have "2 powr (real_of_int e) \<le> a \<and> a < 2 powr (real_of_int e + 1)"
    using assms by (simp only: p)
  then show ?thesis
    using floor_log_eq_powr_iff[of a 2 e] pos by simp
qed

lemma fl32_exact:
  assumes "2 powi e \<le> \<bar>x\<bar>" "\<bar>x\<bar> < 2 powi (e + 1)" "- 126 \<le> e" "e \<le> 127"
    and "\<bar>x\<bar> = of_int n * 2 powi (e - 23)"
  shows "fl32 x = Finite x"
proof -
  have "(0::real) < 2 powi e" by simp
  with assms(1) have "0 < \<bar>x\<bar>" by linarith
  then have nz: "x \<noteq> 0" by simp
  have e: "max \<lfloor>log 2 \<bar>x\<bar>\<rfloor> (- 126) = e"
    using floor_log2[OF assms(1,2)] assms(3) by simp
  have u: "(2::real) powi (e - 23) \<noteq> 0" by simp
  have q: "\<bar>x\<bar> / 2 powi (e - 23) = of_int n"
    using assms(5) u by (simp add: field_simps)
  have "(2::real) powi (e + 1) \<le> 2 powi 128"
    using assms(4) by (intro power_int_increasing) auto
  then have no: "\<not> 2 powi 128 \<le> \<bar>x\<bar>" using assms(2) by linarith
  have s: "sgn x * \<bar>x\<bar> = x" by (simp add: sgn_real_def)
  show ?thesis
    using nz no s
    by (simp add: fl32_def Let_def e q assms(5)[symmetric] del: power_int_numeral)
qed

lemma fl32_underflow:
  assumes "\<bar>x\<bar> < 2 powi (- 150)"
  shows "fl32 x = Finite 0"
proof (cases "x = 0")
  case True
  then show ?thesis by (simp add: fl32_def)
next
  case False
  then have pos: "0 < \<bar>x\<bar>" by simp
  have "\<bar>x\<bar> < 2 powr (real_of_int (- 126))"
  proof -
    have "(2::real) powi (- 150) \<le> 2 powi (- 126)"
      by (intro power_int_increasing) auto
    with assms have "\<bar>x\<bar> < 2 powi (- 126)" by linarith
    moreover have "(2::real) powr real_of_int (- 126) = 2 powi (- 126)"
      using powr_real_of_int'[of 2 "- 126"] by simp
    ultimately show ?thesis by (simp only:)
  qed
  then have "log 2 \<bar>x\<bar> < real_of_int (- 126)"
    using pos by (simp add: log_less_iff)
  then have "\<lfloor>log 2 \<bar>x\<bar>\<rfloor> < - 126" by (simp add: floor_less_iff)
  then have e: "max \<lfloor>log 2 \<bar>x\<bar>\<rfloor> (- 126) = - 126" by simp
  have u: "(2::real) powi (- 149) = 2 * 2 powi (- 150)"
    by (simp add: power_int_minus field_simps)
  have q0: "0 \<le> \<bar>x\<bar> / 2 powi (- 149)" by simp
  have q1: "\<bar>x\<bar> / 2 powi (- 149) < 1 / 2"
    using assms unfolding u by (simp add: field_simps)
  have f: "\<lfloor>\<bar>x\<bar> / 2 powi (- 149)\<rfloor> = 0"
    using q0 q1 by (simp add: floor_eq_iff)
  have r: "round_half_even (\<bar>x\<bar> / 2 powi (- 149)) = 0"
    using q1 by (simp add: round_half_even_def f Let_def del: power_int_numeral_neg_numeral)
  have big: "\<not> (2::real) powi 128 \<le> 0"
    by (simp add: not_le)
  show ?thesis
    using False big
    by (simp add: fl32_def Let_def e r del: power_int_numeral_neg_numeral power_int_numeral)
qed

text \<open>
  A positive real inside the normal range rounds to the multiple of the unit of its
  binade that is less than half a unit away.
\<close>

lemma round_half_even_near:
  assumes "of_int n - 1 / 2 < y" "y < of_int n + 1 / 2"
  shows "round_half_even y = n"
proof -
  have "\<lfloor>y\<rfloor> = n \<or> \<lfloor>y\<rfloor> = n - 1"
    using assms by linarith
  then show ?thesis
  proof
    assume f: "\<lfloor>y\<rfloor> = n"
    with assms show ?thesis by (simp add: round_half_even_def Let_def)
  next
    assume f: "\<lfloor>y\<rfloor> = n - 1"
    with assms show ?thesis by (simp add: round_half_even_def Let_def)
  qed
qed

lemma fl32_round:
  assumes "2 powi e \<le> x" "x < 2 powi (e + 1)" "- 126 \<le> e" "e \<le> 126"
    and "of_int n - 1 / 2 < x / 2 powi (e - 23)" "x / 2 powi (e - 23) < of_int n + 1 / 2"
    and "of_int n * 2 powi (e - 23) \<le> (2::real) powi (e + 1)"
  shows "fl32 x = Finite (of_int n * 2 powi (e - 23))"
proof -
  have "(0::real) < 2 powi e" by simp
  with assms(1) have pos: "0 < x" by linarith
  then have ax: "\<bar>x\<bar> = x" by simp
  have e: "max \<lfloor>log 2 x\<rfloor> (- 126) = e"
    using floor_log2[of e x] assms(1,2,3) by simp
  have r: "round_half_even (x / 2 powi (e - 23)) = n"
    using round_half_even_near[OF assms(5,6)] .
  have "(2::real) powi (e + 1) < 2 powi 128"
    using assms(4) by (intro power_int_strict_increasing) auto
  with assms(7) have no: "\<not> 2 powi 128 \<le> of_int n * (2::real) powi (e - 23)" by linarith
  show ?thesis
    using pos no
    by (simp add: fl32_def Let_def ax e r sgn_real_def del: power_int_numeral)
qed

lemma fl32_values:
  "fl32 0 = Finite 0" "fl32 1 = Finite 1" "fl32 2 = Finite 2" "fl32 3 = Finite 3"
  "fl32 4 = Finite 4" "fl32 5 = Finite 5" "fl32 9 = Finite 9" "fl32 16 = Finite 16"
  "fl32 25 = Finite 25"
  subgoal by (simp add: fl32_def)
  subgoal by (rule fl32_exact[where e = 0 and n = "2 ^ 23"]) (simp_all add: power_int_minus)
  subgoal by (rule fl32_exact[where e = 1 and n = "2 ^ 23"]) (simp_all add: power_int_minus)
  subgoal by (rule fl32_exact[where e = 1 and n = "3 * 2 ^ 22"]) (simp_all add: power_int_minus)
  subgoal by (rule fl32_exact[where e = 2 and n = "2 ^ 23"]) (simp_all add: power_int_minus)
  subgoal by (rule fl32_exact[where e = 2 and n = "5 * 2 ^ 21"]) (simp_all add: power_int_minus)
  subgoal by (rule fl32_exact[where e = 3 and n = "9 * 2 ^ 20"]) (simp_all add: power_int_minus)
  subgoal by (rule fl32_exact[where e = 4 and n = "2 ^ 23"]) (simp_all add: power_int_minus)
  subgoal by (rule fl32_exact[where e = 4 and n = "25 * 2 ^ 19"]) (simp_all add: power_int_minus)
  done

lemma sqrt25 [simp]: "sqrt 25 = 5"
  using real_sqrt_abs[of 5] by simp

lemma tiny_pos [simp]: "0 < tiny" "tiny \<noteq> 0"
  by (simp_all add: tiny_def)

lemma fl32_tiny:
  "fl32 (tiny * 3) = Finite (tiny * 3)"
  "fl32 (tiny * tiny) = Finite 0"
  subgoal by (rule fl32_exact[where e = "- 79" and n = "3 * 2 ^ 22"])
      (simp_all add: tiny_def power_int_minus)
  subgoal by (rule fl32_underflow) (simp add: tiny_def power_int_minus)
  done

lemma demo_cosines:
  assumes "np_dot sv = f32_dot" "np_norm sv = f32_norm"
  shows "cosine sv [1, 0] [1, 0] = Inr (Finite 1)"
    and "cosine sv [1, 0] [0, 1] = Inr (Finite 0)"
    and "cosine sv [1, 0] [2, 0] = Inr (Finite 1)"
    and "cosine sv [0, 1] [1, 0] = Inr (Finite 0)"
    and "cosine sv [0, 1] [0, 1] = Inr (Finite 1)"
    and "cosine sv [0, 1] [2, 0] = Inr (Finite 0)"
    and "cosine sv [0, 0] [3, 4] = Inr NaN"
    and "cosine sv [tiny, 0] [3, 4] = Inr PosInf"
  by (simp_all add: cosine_def assms f32_dot_def f32_norm_def fl32_values fl32_tiny)

text \<open>
  The roundings behind the similarities of the query \<open>[1, 6]\<close> to the stored embeddings
  \<open>[1, 6]\<close> and \<open>[3, 18]\<close>, and the rounding of the default threshold.
\<close>

lemma sqrt37: "fl32 (sqrt 37) = Finite (6378239 / 1048576)"
proof -
  have l: "(12756478 - 1 / 2) / 2 ^ 21 < sqrt 37"
    by (rule real_less_rsqrt) (simp add: power2_eq_square)
  have u: "sqrt 37 < (12756478 + 1 / 2) / 2 ^ 21"
    by (rule real_less_lsqrt) (simp_all add: power2_eq_square)
  have "fl32 (sqrt 37) = Finite (of_int 12756478 * 2 powi (2 - 23))"
    using l u by (intro fl32_round) (simp_all add: power_int_minus field_simps)
  then show ?thesis by (simp add: power_int_minus)
qed

lemma sqrt333: "fl32 (sqrt 333) = Finite (4783679 / 262144)"
proof -
  have l: "(9567358 - 1 / 2) / 2 ^ 19 < sqrt 333"
    by (rule real_less_rsqrt) (simp add: power2_eq_square)
  have u: "sqrt 333 < (9567358 + 1 / 2) / 2 ^ 19"
    by (rule real_less_lsqrt) (simp_all add: power2_eq_square)
  have "fl32 (sqrt 333) = Finite (of_int 9567358 * 2 powi (4 - 23))"
    using l u by (intro fl32_round) (simp_all add: power_int_minus field_simps)
  then show ?thesis by (simp add: power_int_minus)
qed

lemma fl32_integers:
  "fl32 36 = Finite 36" "fl32 37 = Finite 37" "fl32 108 = Finite 108" "fl32 111 = Finite 111"
  "fl32 324 = Finite 324" "fl32 333 = Finite 333"
  subgoal by (rule fl32_exact[where e = 5 and n = "36 * 2 ^ 18"]) (simp_all add: power_int_minus)
  subgoal by (rule fl32_exact[where e = 5 and n = "37 * 2 ^ 18"]) (simp_all add: power_int_minus)
  subgoal by (rule fl32_exact[where e = 6 and n = "108 * 2 ^ 17"]) (simp_all add: power_int_minus)
  subgoal by (rule fl32_exact[where e = 6 and n = "111 * 2 ^ 17"]) (simp_all add: power_int_minus)
  subgoal by (rule fl32_exact[where e = 8 and n = "324 * 2 ^ 15"]) (simp_all add: power_int_minus)
  subgoal by (rule fl32_exact[where e = 8 and n = "333 * 2 ^ 15"]) (simp_all add: power_int_minus)
  done

lemma fl32_products:
  "fl32 (40681932741121 / 1099511627776) = Finite (9699329 / 262144)"
  "fl32 (30511447961281 / 274877906944) = Finite 111"
proof -
  have "fl32 (40681932741121 / 1099511627776)
      = Finite (of_int 9699329 * 2 powi (5 - 23))"
    by (intro fl32_round) (simp_all add: power_int_minus)
  then show "fl32 (40681932741121 / 1099511627776) = Finite (9699329 / 262144)"
    by (simp add: power_int_minus)
  have "fl32 (30511447961281 / 274877906944)
      = Finite (of_int 14548992 * 2 powi (6 - 23))"
    by (intro fl32_round) (simp_all add: power_int_minus)
  then show "fl32 (30511447961281 / 274877906944) = Finite 111"
    by (simp add: power_int_minus)
qed

lemma fl32_quotient:
  "fl32 (9699328 / 9699329) = Finite (8388607 / 8388608)"
proof -
  have "fl32 (9699328 / 9699329) = Finite (of_int 16777214 * 2 powi (- 1 - 23))"
    by (intro fl32_round) (simp_all add: power_int_minus)
  then show ?thesis by (simp add: power_int_minus)
qed

lemma rounded_cosines:
  assumes "np_dot sv = f32_dot" "np_norm sv = f32_norm"
  shows "cosine sv [1, 6] [1, 6] = Inr (Finite (8388607 / 8388608))"
    and "cosine sv [1, 6] [3, 18] = Inr (Finite 1)"
  by (simp_all add: cosine_def assms f32_dot_def f32_norm_def fl32_values fl32_integers
      sqrt37 sqrt333 fl32_products fl32_quotient)

lemma fl32_threshold: "fl32 (17 / 20) = Finite (7130317 / 8388608)"
proof -
  have "fl32 (17 / 20) = Finite (of_int 14260634 * 2 powi (- 1 - 23))"
    by (intro fl32_round) (simp_all add: power_int_minus)
  then show ?thesis by (simp add: power_int_minus)
qed

section \<open>The scripted run, evaluated\<close>

lemma demo_fields:
  "encode demo_services = demo_encode"
  "now demo_services = real"
  "uuid4 demo_services = ''00000000-0000-4000-8000-000000000000''"
  "db_execute demo_services = (\<lambda>s. Inr demo_rows)"
  "parse_DataInsight demo_services ''insight'' = Inr demo_insight"
  "parse_SQLQuery demo_services ''select'' = Inr region_query"
  "parse_SQLQuery demo_services ''refuse'' = Inr refusal"
  "chat_completion demo_services (InsightPrompt q rows) = Inr ''insight''"
  "chat_completion demo_services (SqlPrompt c cc None ctx q) = Inr ''select''"
  "chat_completion demo_services (SqlPrompt c cc (Some fu) ctx q) = Inr ''refuse''"
  by (simp_all add: demo_services_def demo_rows_def)

lemma demo_arith:
  "np_dot demo_services = f32_dot"
  "np_norm demo_services = f32_norm"
  "python_float demo_services = Finite"
  by (simp_all add: demo_services_def)

lemma other_arith:
  "np_dot stubborn_services = f32_dot"
  "np_norm stubborn_services = f32_norm"
  "python_float stubborn_services = Finite"
  "np_dot offline_services = f32_dot"
  "np_norm offline_services = f32_norm"
  "python_float offline_services = Finite"
  "np_dot terse_services = f32_dot"
  "np_norm terse_services = f32_norm"
  "python_float terse_services = Finite"
  by (simp_all add: stubborn_services_def offline_services_def terse_services_def
      demo_services_def)

lemmas demo_cosine = demo_cosines[OF demo_arith(1,2)]

lemma other_fields:
  "encode stubborn_services = demo_encode"
  "encode offline_services = demo_encode"
  "now stubborn_services = real"
  "now offline_services = real"
  "db_execute stubborn_services = (\<lambda>s. Inr demo_rows)"
  "db_execute offline_services = (\<lambda>s. Inr demo_rows)"
  "parse_SQLQuery stubborn_services ''select'' = Inr region_query"
  "chat_completion stubborn_services (SqlPrompt c cc fu ctx q) = Inr ''select''"
  "chat_completion offline_services p = Inl (Exception ''timeout'')"
  by (simp_all add: stubborn_services_def offline_services_def demo_services_def demo_rows_def)

lemma bi_init: "BusinessIntelligence_init demo_services = Inr (bi fresh_chatbot)"
  by (simp add: BusinessIntelligence_init_def fresh_chatbot_def initialize_business_concepts_def
      demo_fields demo_encode_def)

lemma demo_md5: "md5 demo_services = (\<lambda>s. of_nat (length s))"
  by (simp add: demo_services_def)

lemma key_region:
  "get_query_key demo_services ''revenue por region'' = ''00000000000000000000000000000012''"
  unfolding get_query_key_def demo_md5 by code_simp

lemma demo_keys:
  "get_query_key demo_services ''Hola '' = ''00000000000000000000000000000004''"
  "get_query_key demo_services '' hola'' = ''00000000000000000000000000000004''"
  "get_query_key demo_services ''adios'' = ''00000000000000000000000000000005''"
  "strip (lower ''Hola '') = ''hola''"
  "strip (lower '' hola'') = ''hola''"
  unfolding get_query_key_def demo_md5 by code_simp+

lemma first_lookup:
  "get_similar_query demo_services (semantic_cache fresh_chatbot) ''revenue por region''
     = Inr (semantic_cache fresh_chatbot, None)"
  by (simp add: get_similar_query_def fresh_chatbot_def demo_fields demo_encode_def)

lemma first_concept:
  "find_relevant_concept demo_services (bi fresh_chatbot) ''revenue por region''
     = Inr (Some (hd initialize_business_concepts))"
  by (simp add: find_relevant_concept_def fresh_chatbot_def demo_fields demo_encode_def
      initialize_business_concepts_def lower_def is_upper_def demo_cosine demo_arith)

lemma first_generation:
  "generate_sql_with_structured_output demo_services fresh_chatbot ''revenue por region'' [] (Some ''s1'')
     = Inr region_query"
  unfolding generate_sql_with_structured_output_def first_concept
  by (simp add: sql_prompt_def
      get_is_follow_up_def validate_follow_up_question_def fresh_chatbot_def SessionMemory_init_def
      demo_fields)

lemma region_insights:
  "generate_insights demo_services ''revenue por region'' rows = demo_insight"
  by (simp add: generate_insights_def canned_insight_def trivial_patterns_def lower_def
      is_upper_def demo_fields)

lemma first_ask:
  "ask demo_services fresh_chatbot ''revenue por region'' (Some ''s1'') =
     (\<lparr>semantic_cache =
         \<lparr>cache = [(''00000000000000000000000000000012'', first_entry)],
          similarity_threshold = 85 / 100\<rparr>,
       bi = bi fresh_chatbot,
       memory = \<lparr>sessions = [''s1'' \<mapsto> [region_turn]], max_turns = 10\<rparr>,
       executed = [''SELECT region, SUM(revenue) FROM tiendas GROUP BY region'']\<rparr>,
      Inr first_response)"
proof -
  have g: "generate_sql_with_structured_output demo_services fresh_chatbot ''revenue por region''
      [] (Some (session_of demo_services (Some ''s1''))) = Inr region_query"
    by (simp add: session_of_def first_generation)
  have r: "rows_of demo_services region_query = demo_rows"
    by (simp add: rows_of_def region_query_def demo_fields)
  have b: "dict_set ''session_id'' (VStr ''s1'')
        (build_response ''revenue por region'' region_query demo_rows demo_insight 1)
      = first_response"
    by (simp add: build_response_def region_query_def demo_insight_def first_response_def
        answer_text_def insights_dict_def)
  have s: "store_query demo_services (semantic_cache fresh_chatbot) ''revenue por region'' sq
       res t = Inr \<lparr>cache = [(''00000000000000000000000000000012'',
          \<lparr>query_embedding = [1, 0], sql_query = sq, results = res, entry_timestamp = t,
           hit_count = 0\<rparr>)], similarity_threshold = 85 / 100\<rparr>" for sq res t
    by (simp add: store_query_def key_region demo_fields demo_encode_def fresh_chatbot_def)
  have m: "add_turn (memory fresh_chatbot) ''s1'' ''revenue por region''
       (answer_text demo_insight region_query) (sql region_query) 3
     = \<lparr>sessions = [''s1'' \<mapsto> [region_turn]], max_turns = 10\<rparr>"
    by (simp add: add_turn_def fresh_chatbot_def SessionMemory_init_def region_turn_def
        answer_text_def demo_insight_def region_query_def)
  from ask_miss[OF first_lookup g]
  show ?thesis
    by (simp add: session_of_def r region_insights b s m demo_fields first_entry_def)
       (simp add: region_query_def fresh_chatbot_def)
qed

lemma talked_chatbot_eq:
  "talked_chatbot =
     \<lparr>semantic_cache =
         \<lparr>cache = [(''00000000000000000000000000000012'', first_entry)],
          similarity_threshold = 85 / 100\<rparr>,
       bi = bi fresh_chatbot,
       memory = \<lparr>sessions = [''s1'' \<mapsto> [region_turn]], max_turns = 10\<rparr>,
       executed = [''SELECT region, SUM(revenue) FROM tiendas GROUP BY region'']\<rparr>"
  by (simp add: talked_chatbot_def first_ask)

lemma follow_up_lookup:
  assumes "encode sv = demo_encode" "np_dot sv = f32_dot" "np_norm sv = f32_norm"
    "python_float sv = Finite"
  shows "get_similar_query sv (semantic_cache talked_chatbot) follow_up_question
     = Inr (semantic_cache talked_chatbot, None)"
  by (simp add: get_similar_query_def talked_chatbot_eq assms(1,4) demo_encode_def
      follow_up_question_def first_entry_def demo_cosines[OF assms(2,3)])

lemma follow_up_concept:
  "find_relevant_concept sv (bi talked_chatbot) follow_up_question
     = Inr (Some (initialize_business_concepts ! 1))"
  by (simp add: find_relevant_concept_def talked_chatbot_eq fresh_chatbot_def
      follow_up_question_def initialize_business_concepts_def lower_def is_upper_def)

lemma follow_up_marker:
  "list_ex (\<lambda>keyword. py_in keyword (lower follow_up_question)) follow_up_keywords"
  by (simp add: follow_up_question_def follow_up_keywords_def lower_def is_upper_def)

lemma follow_up_validation:
  "validate_follow_up_question (memory talked_chatbot) ''s1'' follow_up_question =
     \<lparr>valid = True, is_follow_up = Some True,
      context_available = Some ''revenue por region'',
      message = ''Follow-up question detected. Previous context: revenue por region...''\<rparr>"
  using follow_up_marker
  by (simp add: validate_follow_up_question_def talked_chatbot_eq region_turn_def
      py_slice_to_def) (simp add: lower_def is_upper_def)

lemma follow_up_prompt:
  "sql_prompt talked_chatbot follow_up_question [] (Some ''s1'') concept =
     SqlPrompt concept (get_conversation_context (memory talked_chatbot) ''s1'')
       (Some ''revenue por region'') [] follow_up_question"
  by (simp add: sql_prompt_def follow_up_validation get_is_follow_up_def
      get_context_available_def py_slice_to_def)

lemma follow_up_generation:
  "generate_sql_with_structured_output demo_services talked_chatbot follow_up_question [] (Some ''s1'')
     = Inr refusal"
  "generate_sql_with_structured_output stubborn_services talked_chatbot follow_up_question [] (Some ''s1'')
     = Inr region_query"
  "generate_sql_with_structured_output offline_services talked_chatbot follow_up_question [] (Some ''s1'')
     = Inr (fallback_query (Exception ''timeout''))"
  unfolding generate_sql_with_structured_output_def follow_up_concept follow_up_prompt
  by (simp_all add: demo_fields other_fields)

lemma hit_lookup:
  "get_similar_query demo_services (semantic_cache talked_chatbot) ''revenue por region''
     = Inr (\<lparr>cache = [(''00000000000000000000000000000012'', first_entry\<lparr>hit_count := 1\<rparr>)],
             similarity_threshold = 85 / 100\<rparr>,
            Some (first_entry\<lparr>hit_count := 1\<rparr>))"
  by (simp add: get_similar_query_def talked_chatbot_eq demo_fields demo_encode_def
      first_entry_def demo_cosine demo_arith Let_def)

lemma demo_similarities:
  assumes "np_dot sv = f32_dot" "np_norm sv = f32_norm"
  shows "similarity_of sv [1, 0] (demo_entry [0, 1] s) = Finite 0"
    and "similarity_of sv [1, 0] (demo_entry [2, 0] s) = Finite 1"
    and "similarity_of sv [1, 0] (demo_entry [1, 0] s) = Finite 1"
    and "similarity_of sv [0, 1] (demo_entry [0, 1] s) = Finite 1"
    and "similarity_of sv [0, 0] (demo_entry [3, 4] s) = NaN"
    and "similarity_of sv [tiny, 0] (demo_entry [3, 4] s) = PosInf"
  by (simp_all add: similarity_of_def demo_entry_def demo_cosines[OF assms])

section \<open>C1: the follow-up guard\<close>

text \<open>
  C1 as stated fails. Session \<open>s1\<close> holds one turn, about revenue by region; the
  question carries two markers and asks for a product type no turn mentions. When the
  completion call times out, the fallback query is executed; when the model answers
  with an executable query of confidence 0.9, that is what the response reports.
\<close>

theorem follow_up_guard_counterexample:
  "sessions (memory talked_chatbot) ''s1'' = Some [region_turn]
   \<and> list_ex (\<lambda>keyword. py_in keyword (lower follow_up_question)) follow_up_keywords
   \<and> \<not> py_in ''producto'' (lower (question region_turn))
   \<and> \<not> py_in ''producto'' (lower (answer region_turn))
   \<and> \<not> py_in ''producto'' (lower (sql_used region_turn))
   \<and> response_field (ask offline_services talked_chatbot follow_up_question (Some ''s1''))
         ''sql_executed'' = Some (VBool True)
   \<and> response_field (ask stubborn_services talked_chatbot follow_up_question (Some ''s1''))
         ''sql_executed'' = Some (VBool True)
   \<and> response_field (ask stubborn_services talked_chatbot follow_up_question (Some ''s1''))
         ''confidence'' = Some (VFloat (9 / 10))"
proof -
  have a: "sessions (memory talked_chatbot) ''s1'' = Some [region_turn]"
    by (simp add: talked_chatbot_eq)
  have b: "\<not> py_in ''producto'' (lower (question region_turn))
     \<and> \<not> py_in ''producto'' (lower (answer region_turn))
     \<and> \<not> py_in ''producto'' (lower (sql_used region_turn))"
    by (simp add: region_turn_def lower_def is_upper_def)
  have g1: "generate_sql_with_structured_output offline_services talked_chatbot
      follow_up_question [] (Some (session_of offline_services (Some ''s1'')))
      = Inr (fallback_query (Exception ''timeout''))"
    by (simp add: session_of_def follow_up_generation)
  have g2: "generate_sql_with_structured_output stubborn_services talked_chatbot
      follow_up_question [] (Some (session_of stubborn_services (Some ''s1'')))
      = Inr region_query"
    by (simp add: session_of_def follow_up_generation)
  from ask_miss[OF follow_up_lookup[OF other_fields(2) other_arith(4,5,6)] g1]
  have c1: "response_field (ask offline_services talked_chatbot follow_up_question (Some ''s1''))
         ''sql_executed'' = Some (VBool True)"
    by (auto simp: response_field_Inr build_response_fields fallback_query_def)
  from ask_miss[OF follow_up_lookup[OF other_fields(1) other_arith(1,2,3)] g2]
  have c2: "response_field (ask stubborn_services talked_chatbot follow_up_question (Some ''s1''))
         ''sql_executed'' = Some (VBool True)
     \<and> response_field (ask stubborn_services talked_chatbot follow_up_question (Some ''s1''))
         ''confidence'' = Some (VFloat (9 / 10))"
    by (auto simp: response_field_Inr build_response_fields region_query_def)
  from a b c1 c2 follow_up_marker show ?thesis by blast
qed

text \<open>
  C1, amended. For a session with at least one prior turn and a question with a
  follow-up marker that misses the cache, the prompt carries the follow-up instruction
  with the first 300 characters of the lower-cased previous questions, and the
  response reports as \<^verbatim>\<open>sql_executed\<close> and \<^verbatim>\<open>confidence\<close> exactly the
  \<^verbatim>\<open>requires_execution\<close> and \<^verbatim>\<open>confidence\<close> of the structured output the model returns.
  Whether the referent was mentioned is never examined by the code.
\<close>

theorem follow_up_response_follows_model:
  assumes prior: "sessions (memory self) sid = Some (t # ts)"
    and given: "sid \<noteq> []"
    and marker: "list_ex (\<lambda>keyword. py_in keyword (lower q)) follow_up_keywords"
    and miss: "get_similar_query sv (semantic_cache self) q = Inr (c1, None)"
    and concept: "find_relevant_concept sv (bi self) q = Inr concept"
    and completion:
      "chat_completion sv
         (SqlPrompt concept (get_conversation_context (memory self) sid)
            (Some (py_slice_to 300 (join '' '' (map (\<lambda>turn. lower (question turn)) (t # ts)))))
            [] q) = Inr content"
    and parsed: "parse_SQLQuery sv content = Inr result"
  shows "response_field (ask sv self q (Some sid)) ''sql_executed''
           = Some (VBool (requires_execution result))
       \<and> response_field (ask sv self q (Some sid)) ''confidence''
           = Some (VFloat (confidence result))"
proof -
  have v: "validate_follow_up_question (memory self) sid q =
     \<lparr>valid = True, is_follow_up = Some True,
      context_available = Some (join '' '' (map (\<lambda>turn. lower (question turn)) (t # ts))),
      message = ''Follow-up question detected. Previous context: ''
        @ py_slice_to 200 (join '' '' (map (\<lambda>turn. lower (question turn)) (t # ts))) @ ''...''\<rparr>"
    using prior marker by (simp add: validate_follow_up_question_def Let_def)
  have p: "sql_prompt self q [] (Some sid) concept =
     SqlPrompt concept (get_conversation_context (memory self) sid)
       (Some (py_slice_to 300 (join '' '' (map (\<lambda>turn. lower (question turn)) (t # ts)))))
       [] q"
    using given by (simp add: sql_prompt_def v get_is_follow_up_def get_context_available_def Let_def)
  have g: "generate_sql_with_structured_output sv self q [] (Some (session_of sv (Some sid)))
      = Inr result"
    using completion parsed
    by (simp add: generate_sql_with_structured_output_def concept p session_of_def)
  from ask_miss[OF miss g] show ?thesis
    by (auto simp: response_field_Inr build_response_fields)
qed

text \<open>
  The amended C1 on the scripted run: the model refuses, the response reports no
  execution and confidence 0.1.
\<close>

theorem follow_up_response_follows_model_witness:
  "sessions (memory talked_chatbot) ''s1'' = Some [region_turn]
   \<and> list_ex (\<lambda>keyword. py_in keyword (lower follow_up_question)) follow_up_keywords
   \<and> get_similar_query demo_services (semantic_cache talked_chatbot) follow_up_question
        = Inr (semantic_cache talked_chatbot, None)
   \<and> find_relevant_concept demo_services (bi talked_chatbot) follow_up_question
        = Inr (Some (initialize_business_concepts ! 1))
   \<and> chat_completion demo_services
        (SqlPrompt (Some (initialize_business_concepts ! 1))
           (get_conversation_context (memory talked_chatbot) ''s1'')
           (Some (py_slice_to 300 (join '' '' (map (\<lambda>turn. lower (question turn)) [region_turn]))))
           [] follow_up_question) = Inr ''refuse''
   \<and> parse_SQLQuery demo_services ''refuse'' = Inr refusal
   \<and> response_field (ask demo_services talked_chatbot follow_up_question (Some ''s1''))
         ''sql_executed'' = Some (VBool False)
   \<and> response_field (ask demo_services talked_chatbot follow_up_question (Some ''s1''))
         ''confidence'' = Some (VFloat (1 / 10))"
proof -
  have a: "sessions (memory talked_chatbot) ''s1'' = Some [region_turn]"
    by (simp add: talked_chatbot_eq)
  have n: "''s1'' \<noteq> []" by simp
  note l = follow_up_lookup[OF demo_fields(1) demo_arith]
  note c = follow_up_concept[of demo_services]
  have m: "chat_completion demo_services
        (SqlPrompt (Some (initialize_business_concepts ! 1))
           (get_conversation_context (memory talked_chatbot) ''s1'')
           (Some (py_slice_to 300 (join '' '' (map (\<lambda>turn. lower (question turn)) [region_turn]))))
           [] follow_up_question) = Inr ''refuse''"
    by (rule demo_fields)
  note p = demo_fields(7)
  from follow_up_response_follows_model[OF a n follow_up_marker l c m p]
  have "response_field (ask demo_services talked_chatbot follow_up_question (Some ''s1''))
         ''sql_executed'' = Some (VBool False)
   \<and> response_field (ask demo_services talked_chatbot follow_up_question (Some ''s1''))
         ''confidence'' = Some (VFloat (1 / 10))"
    by (simp add: refusal_def)
  with a follow_up_marker l c m p show ?thesis by blast
qed

section \<open>C2: the keys of the response\<close>

text \<open>
  C2 fails on the cache-hit path. Asking the question of the first turn again is a
  hit, and the dictionary returned has seven keys: \<^verbatim>\<open>sql_executed\<close>, \<^verbatim>\<open>confidence\<close>
  and \<^verbatim>\<open>session_id\<close> are absent.
\<close>

theorem cache_hit_response_lacks_keys:
  "snd (ask demo_services talked_chatbot ''revenue por region'' (Some ''s1'')) =
     Inr [(''question'', VStr ''revenue por region''),
          (''answer'', VStr (''Norte leads'' @ [CHR 0x0A, CHR 0x0A]
             @ ''**Business Context:** Revenue by region'')),
          (''data'', VList demo_rows),
          (''insights'', VDict
             [(''key_finding'', VStr ''Norte leads''),
              (''supporting_metrics'', VList [VStr ''Norte: 10'']),
              (''recommendations'', VList []),
              (''related_questions'', VList [])]),
          (''sql_used'', VStr ''SELECT region, SUM(revenue) FROM tiendas GROUP BY region''),
          (''cached'', VBool True),
          (''execution_time'', VFloat 1)]
   \<and> response_field (ask demo_services talked_chatbot ''revenue por region'' (Some ''s1''))
         ''sql_executed'' = None
   \<and> response_field (ask demo_services talked_chatbot ''revenue por region'' (Some ''s1''))
         ''confidence'' = None
   \<and> response_field (ask demo_services talked_chatbot ''revenue por region'' (Some ''s1''))
         ''session_id'' = None"
  unfolding ask_hit[OF hit_lookup]
  by (simp add: cached_response_def first_entry_def first_response_def demo_fields
      response_field_def)

text \<open>On the cache-miss path every key of C2 is present.\<close>

lemma cache_miss_response_keys:
  assumes "get_similar_query sv (semantic_cache self) q = Inr (c1, None)"
    and "generate_sql_with_structured_output sv self q [] (Some (session_of sv sid)) = Inr sq"
  shows "list_all (\<lambda>k. response_field (ask sv self q sid) k \<noteq> None)
           [''answer'', ''data'', ''sql_used'', ''sql_executed'', ''confidence'', ''cached'',
            ''execution_time'', ''insights'', ''session_id'']"
  using ask_miss[OF assms]
  by (auto simp: response_field_Inr build_response_def)

section \<open>C3: the entry a lookup returns\<close>

text \<open>
  C3 as stated fails for a negative threshold: the similarity of the entry, 0 in exact
  arithmetic and in float32 alike, is strictly above the threshold \<open>- 1/2\<close>, and the
  lookup returns none, since a similarity must also exceed the initial
  \<^verbatim>\<open>best_similarity\<close>, which is 0.
\<close>

theorem negative_threshold_counterexample:
  "encode demo_services ''revenue por region'' = Inr [1, 0]
   \<and> cache skewed_cache = [(''k0'', demo_entry [0, 1] ''SELECT 0'')]
   \<and> similarity_threshold skewed_cache = - (1 / 2)
   \<and> cosine demo_services [1, 0] (query_embedding (demo_entry [0, 1] ''SELECT 0''))
        = Inr (Finite 0)
   \<and> np_gt (Finite 0) (python_float demo_services (similarity_threshold skewed_cache))
   \<and> get_similar_query demo_services skewed_cache ''revenue por region''
        = Inr (skewed_cache, None)"
  by (simp add: get_similar_query_def skewed_cache_def SemanticCache_init_def demo_fields
      demo_encode_def demo_entry_def demo_cosine demo_arith)

text \<open>
  C3, amended. The similarity of an entry is the float32 scalar the program computes,
  \<^verbatim>\<open>np.dot(q, e) / (np.linalg.norm(q) * np.linalg.norm(e))\<close>, and the threshold is the
  operand the comparison makes of the configured float. When the embedding call
  returns and \<^verbatim>\<open>np.dot\<close> returns on every stored embedding (they have the dimension of
  the query), the lookup returns the stored entry, its hit count incremented, whose
  computed similarity is the highest among those strictly above both the threshold and
  0, the first of them in iteration order when several tie; it returns none, leaving
  the cache as it is, when no entry qualifies, in particular on an empty cache. A
  computed similarity equal to the threshold does not qualify.
\<close>

theorem get_similar_query_best_match:
  assumes "encode sv query = Inr q" and "dots_return sv q (map snd (cache c))"
  shows "\<not> qualifies sv (similarity_threshold c) (python_float sv (similarity_threshold c))
       \<and> ((get_similar_query sv c query = Inr (c, None)
            \<and> list_all (\<lambda>e. \<not> qualifies sv (similarity_threshold c) (similarity_of sv q e))
                  (map snd (cache c)))
          \<or> (\<exists>i. is_best_match sv q (similarity_threshold c) (map snd (cache c)) i
                \<and> get_similar_query sv c query =
                    Inr (c\<lparr>cache := (cache c)[i := (fst (cache c ! i),
                                                    count_hit (snd (cache c ! i)))]\<rparr>,
                         Some (count_hit (snd (cache c ! i))))))"
  using get_similar_query_cases[OF assms] qualifies_strict by blast

text \<open>
  The amended C3 in binary32 on a cache of three entries with similarities 0, 1 and 1:
  the second is returned, not the third.
\<close>

theorem get_similar_query_best_match_witness:
  "encode demo_services ''revenue por region'' = Inr [1, 0]
   \<and> dots_return demo_services [1, 0] (map snd (cache demo_cache))
   \<and> map (similarity_of demo_services [1, 0]) (map snd (cache demo_cache))
        = [Finite 0, Finite 1, Finite 1]
   \<and> is_best_match demo_services [1, 0] (similarity_threshold demo_cache)
        (map snd (cache demo_cache)) 1
   \<and> \<not> is_best_match demo_services [1, 0] (similarity_threshold demo_cache)
        (map snd (cache demo_cache)) 2
   \<and> get_similar_query demo_services demo_cache ''revenue por region'' =
        Inr (demo_cache\<lparr>cache := (cache demo_cache)[1 := (''k1'', count_hit (demo_entry [2, 0] ''SELECT 1''))]\<rparr>,
             Some (count_hit (demo_entry [2, 0] ''SELECT 1'')))"
proof -
  note s = demo_similarities[OF demo_arith(1,2)]
  have e: "encode demo_services ''revenue por region'' = Inr [1, 0]"
    by (simp add: demo_fields demo_encode_def)
  have d: "dots_return demo_services [1, 0] (map snd (cache demo_cache))"
    by (simp add: dots_return_def demo_cache_def demo_entry_def demo_arith f32_dot_def)
  have m: "map (similarity_of demo_services [1, 0]) (map snd (cache demo_cache))
        = [Finite 0, Finite 1, Finite 1]"
    by (simp add: demo_cache_def s)
  have b1: "is_best_match demo_services [1, 0] (similarity_threshold demo_cache)
      (map snd (cache demo_cache)) 1"
    by (simp add: is_best_match_def demo_cache_def s qualifies_def demo_arith)
  have nb: "\<not> is_best_match demo_services [1, 0] (similarity_threshold demo_cache)
      (map snd (cache demo_cache)) i"
    if "i \<noteq> 1" for i
  proof (cases "i = 0 \<or> i = 2")
    case True
    then show ?thesis
      by (auto simp: is_best_match_def demo_cache_def s qualifies_def demo_arith)
  next
    case False
    with that have "\<not> i < length (map snd (cache demo_cache))"
      by (simp add: demo_cache_def)
    then show ?thesis by (simp add: is_best_match_def)
  qed
  from get_similar_query_best_match[OF e d]
  obtain i where i: "is_best_match demo_services [1, 0] (similarity_threshold demo_cache)
      (map snd (cache demo_cache)) i"
    and g: "get_similar_query demo_services demo_cache ''revenue por region'' =
                    Inr (demo_cache\<lparr>cache := (cache demo_cache)[i := (fst (cache demo_cache ! i),
                                                    count_hit (snd (cache demo_cache ! i)))]\<rparr>,
                         Some (count_hit (snd (cache demo_cache ! i))))"
    using b1 by (auto simp: list_all_iff is_best_match_def)
  from i nb have "i = 1" by blast
  with g have "get_similar_query demo_services demo_cache ''revenue por region'' =
        Inr (demo_cache\<lparr>cache := (cache demo_cache)[1 := (''k1'', count_hit (demo_entry [2, 0] ''SELECT 1''))]\<rparr>,
             Some (count_hit (demo_entry [2, 0] ''SELECT 1'')))"
    by (simp add: demo_cache_def)
  with e d m b1 nb[of 2] show ?thesis by simp
qed

text \<open>
  The computed similarity is not the exact cosine. The stored embeddings \<open>[1, 6]\<close> and
  \<open>[3, 18]\<close> are both at cosine 1 of the query \<open>[1, 6]\<close>, but in binary32 the first
  gets the similarity \<open>1 - 1 / 2 ^ 23\<close> and the second 1: the loop returns the second
  entry, where a tie would have kept the first.
\<close>

lemma rounding_separates_a_tie:
  "(1 * 1 + 6 * 6) / (sqrt (1 * 1 + 6 * 6) * sqrt (1 * 1 + 6 * 6)) = (1::real)
   \<and> (1 * 3 + 6 * 18) / (sqrt (1 * 1 + 6 * 6) * sqrt (3 * 3 + 18 * 18)) = (1::real)
   \<and> similarity_of demo_services [1, 6] (demo_entry [1, 6] ''SELECT 0'')
        = Finite (8388607 / 8388608)
   \<and> similarity_of demo_services [1, 6] (demo_entry [3, 18] ''SELECT 1'') = Finite 1
   \<and> similarity_loop demo_services [1, 6] (85 / 100)
        [demo_entry [1, 6] ''SELECT 0'', demo_entry [3, 18] ''SELECT 1''] 0 None (Finite 0)
        = Inr (Some 1)"
proof -
  have "sqrt 333 = 3 * sqrt 37"
    using real_sqrt_mult[of 9 37] real_sqrt_abs[of 3] by simp
  then have x: "(1 * 1 + 6 * 6) / (sqrt (1 * 1 + 6 * 6) * sqrt (1 * 1 + 6 * 6)) = (1::real)
   \<and> (1 * 3 + 6 * 18) / (sqrt (1 * 1 + 6 * 6) * sqrt (3 * 3 + 18 * 18)) = (1::real)"
    by simp
  note c = rounded_cosines[OF demo_arith(1,2)]
  have s: "similarity_of demo_services [1, 6] (demo_entry [1, 6] ''SELECT 0'')
        = Finite (8388607 / 8388608)
   \<and> similarity_of demo_services [1, 6] (demo_entry [3, 18] ''SELECT 1'') = Finite 1"
    by (simp add: similarity_of_def demo_entry_def c)
  have l: "similarity_loop demo_services [1, 6] (85 / 100)
        [demo_entry [1, 6] ''SELECT 0'', demo_entry [3, 18] ''SELECT 1''] 0 None (Finite 0)
        = Inr (Some 1)"
    by (simp add: demo_entry_def c demo_arith)
  from x s l show ?thesis by blast
qed

text \<open>
  Nor is the threshold of the comparison the configured float in every version of
  numpy. A computed similarity equal to the float32 nearest to 0.85 is a hit when the
  comparison takes the threshold as it is, and a miss when it rounds the threshold to
  float32 first.
\<close>

lemma threshold_coercion:
  "(python_float sv (85 / 100) = Finite (85 / 100) \<longrightarrow> qualifies sv (85 / 100) (fl32 (85 / 100)))
   \<and> (python_float sv (85 / 100) = fl32 (85 / 100) \<longrightarrow> \<not> qualifies sv (85 / 100) (fl32 (85 / 100)))"
  by (simp add: qualifies_def fl32_threshold)

section \<open>C4: embeddings of zero magnitude\<close>

text \<open>
  C4 fails on a question whose embedding has near-zero magnitude. The question embeds
  to \<open>[tiny, 0]\<close> with \<open>tiny\<close> the float32 value \<open>1 / 2 ^ 80\<close>, and the cache, with the
  default threshold 0.85, holds one entry of embedding \<open>[3, 4]\<close>, at cosine 3/5 of the
  question. In float32 the square of \<open>tiny\<close> underflows, the norm of the question is 0
  and so is the divisor, while the dot product is \<open>3 * tiny\<close>: the division is carried
  out, by zero, and gives the positive infinity, which passes both comparisons, so that
  the lookup returns the entry as a hit and counts it. On the null vector the same
  division gives \<open>NaN\<close> and the lookup is a miss.
\<close>

theorem near_zero_magnitude_is_a_hit:
  "encode demo_services ''tiny'' = Inr [tiny, 0]
   \<and> cache steep_cache = [(''k0'', demo_entry [3, 4] ''SELECT 0'')]
   \<and> similarity_threshold steep_cache = 85 / 100
   \<and> (tiny * 3 + 0 * 4) / (sqrt (tiny * tiny + 0 * 0) * sqrt (3 * 3 + 4 * 4)) = 3 / 5
   \<and> np_dot demo_services [tiny, 0] [3, 4] = Inr (Finite (tiny * 3))
   \<and> np_norm demo_services [tiny, 0] = Finite 0
   \<and> f32_mul (np_norm demo_services [tiny, 0]) (np_norm demo_services [3, 4]) = Finite 0
   \<and> cosine demo_services [tiny, 0] [3, 4] = Inr PosInf
   \<and> get_similar_query demo_services steep_cache ''tiny''
        = Inr (steep_cache\<lparr>cache := [(''k0'', count_hit (demo_entry [3, 4] ''SELECT 0''))]\<rparr>,
               Some (count_hit (demo_entry [3, 4] ''SELECT 0'')))
   \<and> encode demo_services ''zero'' = Inr [0, 0]
   \<and> cosine demo_services [0, 0] [3, 4] = Inr NaN
   \<and> get_similar_query demo_services steep_cache ''zero'' = Inr (steep_cache, None)"
proof -
  have "\<bar>tiny\<bar> = tiny" by (rule abs_of_pos) simp
  then have x: "(tiny * 3 + 0 * 4) / (sqrt (tiny * tiny + 0 * 0) * sqrt (3 * 3 + 4 * 4)) = 3 / 5"
    by simp
  have d: "np_dot demo_services [tiny, 0] [3, 4] = Inr (Finite (tiny * 3))"
    by (simp add: demo_arith f32_dot_def fl32_values fl32_tiny)
  have n: "np_norm demo_services [tiny, 0] = Finite 0"
    by (simp add: demo_arith f32_norm_def fl32_values fl32_tiny)
  have n': "np_norm demo_services [3, 4] = Finite 5"
    by (simp add: demo_arith f32_norm_def fl32_values)
  have p: "f32_mul (np_norm demo_services [tiny, 0]) (np_norm demo_services [3, 4]) = Finite 0"
    by (simp add: n n' fl32_values)
  have g: "get_similar_query demo_services steep_cache ''tiny''
        = Inr (steep_cache\<lparr>cache := [(''k0'', count_hit (demo_entry [3, 4] ''SELECT 0''))]\<rparr>,
               Some (count_hit (demo_entry [3, 4] ''SELECT 0'')))"
    by (simp add: get_similar_query_def steep_cache_def SemanticCache_init_def demo_fields
        demo_encode_def demo_entry_def demo_cosine demo_arith count_hit_def Let_def)
  have z: "get_similar_query demo_services steep_cache ''zero'' = Inr (steep_cache, None)"
    by (simp add: get_similar_query_def steep_cache_def SemanticCache_init_def demo_fields
        demo_encode_def demo_entry_def demo_cosine demo_arith)
  have c: "cache steep_cache = [(''k0'', demo_entry [3, 4] ''SELECT 0'')]
      \<and> similarity_threshold steep_cache = 85 / 100"
    by (simp add: steep_cache_def SemanticCache_init_def)
  have e: "encode demo_services ''tiny'' = Inr [tiny, 0]
      \<and> encode demo_services ''zero'' = Inr [0, 0]"
    by (simp add: demo_fields demo_encode_def)
  from x d n p g z c e demo_cosine(7,8) show ?thesis by blast
qed

section \<open>C5: a failing embedding service\<close>

text \<open>
  C5 as stated fails: when the embedding of the question raises, \<^verbatim>\<open>ask\<close> raises the
  same exception.
\<close>

theorem embedding_failure_counterexample:
  "encode demo_services ''unavailable'' = Inl (Exception ''embedding service unavailable'')
   \<and> ask demo_services fresh_chatbot ''unavailable'' None
        = (fresh_chatbot, Inl (Exception ''embedding service unavailable''))"
  by (simp add: ask_def get_similar_query_def demo_fields demo_encode_def Let_def)

text \<open>
  C5, amended. When the embedding service raises during the cache lookup, the lookup
  raises, and \<^verbatim>\<open>ask\<close> raises the same exception to its caller, with the chatbot left
  as it was: no later step runs.
\<close>

theorem embedding_failure_propagates:
  assumes "encode sv q = Inl err"
  shows "get_similar_query sv (semantic_cache self) q = Inl err
       \<and> ask sv self q sid = (self, Inl err)"
proof -
  from assms have "get_similar_query sv (semantic_cache self) q = Inl err"
    by (simp add: get_similar_query_def)
  then show ?thesis by (simp add: ask_lookup_raises)
qed

text \<open>The amended C5 on the scripted run.\<close>

theorem embedding_failure_propagates_witness:
  "encode demo_services ''unavailable'' = Inl (Exception ''embedding service unavailable'')
   \<and> get_similar_query demo_services (semantic_cache talked_chatbot) ''unavailable''
        = Inl (Exception ''embedding service unavailable'')
   \<and> ask demo_services talked_chatbot ''unavailable'' (Some ''s1'')
        = (talked_chatbot, Inl (Exception ''embedding service unavailable''))"
proof -
  have e: "encode demo_services ''unavailable''
             = Inl (Exception ''embedding service unavailable'')"
    by (simp add: demo_fields demo_encode_def)
  from embedding_failure_propagates[OF e] e show ?thesis by simp
qed

section \<open>C6: conditional execution\<close>










section \<open>C7: the fallback of the generation step\<close>

text \<open>
  C7 as stated fails: the concept search stands before the \<^verbatim>\<open>try\<close>, and for a
  question without a concept keyword it embeds the question; when that raises, the
  generation step raises.
\<close>

theorem generation_raises_counterexample:
  "encode demo_services ''unavailable'' = Inl (Exception ''embedding service unavailable'')
   \<and> generate_sql_with_structured_output demo_services fresh_chatbot ''unavailable'' [] None
        = Inl (Exception ''embedding service unavailable'')"
  by (simp add: generate_sql_with_structured_output_def find_relevant_concept_def
      fresh_chatbot_def initialize_business_concepts_def demo_fields demo_encode_def
      lower_def is_upper_def)

text \<open>
  C7, amended. Once the concept search has returned, the generation step returns,
  whatever the completion call and the parsing of its content do; when either of them
  raises \<open>e\<close>, the result is the fallback: the fixed SQL, confidence 0.1, the reasoning
  ending in the text of \<open>e\<close>, and \<^verbatim>\<open>requires_execution\<close> true.
\<close>

theorem generation_falls_back:
  assumes concept: "find_relevant_concept sv (bi self) q = Inr concept"
  shows "(\<exists>result. generate_sql_with_structured_output sv self q context sid = Inr result)
       \<and> (chat_completion sv (sql_prompt self q context sid concept) = Inl e
            \<or> (\<exists>content. chat_completion sv (sql_prompt self q context sid concept) = Inr content
                  \<and> parse_SQLQuery sv content = Inl e)
          \<longrightarrow> generate_sql_with_structured_output sv self q context sid =
                Inr \<lparr>sql = ''SELECT * FROM tiendas LIMIT 10'',
                     reasoning = ''Error in SQL generation: '' @ str_of_error e,
                     business_context = ''Unable to generate proper query'',
                     confidence = 1 / 10,
                     requires_execution = True\<rparr>)"
  by (auto simp: generate_sql_with_structured_output_def concept fallback_query_def
      split: sum.splits)

text \<open>The amended C7 on the scripted run, with the model timing out.\<close>

theorem generation_falls_back_witness:
  "find_relevant_concept offline_services (bi talked_chatbot) follow_up_question
     = Inr (Some (initialize_business_concepts ! 1))
   \<and> chat_completion offline_services
        (sql_prompt talked_chatbot follow_up_question [] (Some ''s1'')
           (Some (initialize_business_concepts ! 1))) = Inl (Exception ''timeout'')
   \<and> generate_sql_with_structured_output offline_services talked_chatbot follow_up_question []
        (Some ''s1'') =
          Inr \<lparr>sql = ''SELECT * FROM tiendas LIMIT 10'',
               reasoning = ''Error in SQL generation: timeout'',
               business_context = ''Unable to generate proper query'',
               confidence = 1 / 10,
               requires_execution = True\<rparr>"
proof -
  note c = follow_up_concept[of offline_services]
  note f = other_fields(9)[of "sql_prompt talked_chatbot follow_up_question [] (Some ''s1'')
           (Some (initialize_business_concepts ! 1))"]
  from generation_falls_back[OF c, of "[]" "Some ''s1''" "Exception ''timeout''"] f
  have "generate_sql_with_structured_output offline_services talked_chatbot follow_up_question []
        (Some ''s1'') =
          Inr \<lparr>sql = ''SELECT * FROM tiendas LIMIT 10'',
               reasoning = ''Error in SQL generation: timeout'',
               business_context = ''Unable to generate proper query'',
               confidence = 1 / 10,
               requires_execution = True\<rparr>"
    by simp
  with c f show ?thesis by blast
qed

section \<open>C8: the bound on a session\<close>

text \<open>
  C8 fails for \<^verbatim>\<open>max_turns = 0\<close>: the slice \<^verbatim>\<open>[-0:]\<close> is the whole list, so after two
  calls the session holds two turns. For a bound of at least 1 the claim holds, see
  \<open>add_turns_bound\<close>.
\<close>

theorem add_turn_zero_bound_keeps_all:
  "max_turns (SessionMemory_init 0) = 0
   \<and> sessions (add_turn (add_turn (SessionMemory_init 0) ''s1'' ''q1'' ''a1'' ''SELECT 1'' 1)
        ''s1'' ''q2'' ''a2'' ''SELECT 2'' 2) ''s1''
      = Some [\<lparr>question = ''q1'', answer = ''a1'', sql_used = ''SELECT 1'', timestamp = 1,
                session_id = ''s1''\<rparr>,
              \<lparr>question = ''q2'', answer = ''a2'', sql_used = ''SELECT 2'', timestamp = 2,
                session_id = ''s1''\<rparr>]"
  by (simp add: add_turn_def SessionMemory_init_def py_slice_from_def Let_def)

section \<open>C9: what a cache hit changes\<close>

lemma get_similar_query_hit_best:
  assumes "get_similar_query sv c query = Inr (c', Some e)"
  shows "\<exists>qe i. encode sv query = Inr qe
           \<and> is_best_match sv qe (similarity_threshold c) (map snd (cache c)) i
           \<and> c' = c\<lparr>cache := (cache c)[i := (fst (cache c ! i), count_hit (snd (cache c ! i)))]\<rparr>
           \<and> e = count_hit (snd (cache c ! i))"
proof -
  from assms obtain qe r where enc: "encode sv query = Inr qe"
    and loop: "similarity_loop sv qe (similarity_threshold c) (map snd (cache c)) 0 None (Finite 0)
             = Inr r"
    by (auto simp: get_similar_query_def split: sum.splits)
  from get_similar_query_cases[OF enc similarity_loop_dots_return[OF loop]] assms
  obtain i where "is_best_match sv qe (similarity_threshold c) (map snd (cache c)) i"
    and "c' = c\<lparr>cache := (cache c)[i := (fst (cache c ! i), count_hit (snd (cache c ! i)))]\<rparr>"
    and "e = count_hit (snd (cache c ! i))"
    by auto
  with enc show ?thesis by blast
qed

lemma cached_lookup:
  "get_similar_query demo_services (semantic_cache cached_chatbot) ''revenue por region''
     = Inr (demo_cache\<lparr>cache := [(''k0'', demo_entry [0, 1] ''SELECT 0''),
                                  (''k1'', count_hit (demo_entry [2, 0] ''SELECT 1'')),
                                  (''k2'', demo_entry [1, 0] ''SELECT 2'')]\<rparr>,
            Some (count_hit (demo_entry [2, 0] ''SELECT 1'')))"
  by (simp add: get_similar_query_def cached_chatbot_def demo_cache_def demo_entry_def
      demo_fields demo_encode_def demo_cosine demo_arith count_hit_def Let_def)

text \<open>
  C9. When \<^verbatim>\<open>ask\<close> returns a response with \<^verbatim>\<open>cached\<close> true, the session memory is
  unchanged, and with it the conversation context and the follow-up validation of
  every session and question; no SQL was executed; and the cache differs from the one
  before in the hit count, incremented, of the matched entry alone: the entry at the
  position of the best match of the question's embedding, which is also the entry the
  response is built from.
\<close>

theorem cache_hit_frame:
  assumes returned: "ask sv self q sid = (self', Inr resp)"
    and cached: "dict_get resp ''cached'' = Some (VBool True)"
  shows "memory self' = memory self
       \<and> executed self' = executed self
       \<and> bi self' = bi self
       \<and> similarity_threshold (semantic_cache self') = similarity_threshold (semantic_cache self)
       \<and> (\<exists>qe i. encode sv q = Inr qe
             \<and> is_best_match sv qe (similarity_threshold (semantic_cache self))
                 (map snd (cache (semantic_cache self))) i
             \<and> i < length (cache (semantic_cache self))
             \<and> cache (semantic_cache self') =
                 (cache (semantic_cache self))
                   [i := (fst (cache (semantic_cache self) ! i),
                          count_hit (snd (cache (semantic_cache self) ! i)))]
             \<and> cached_response q (count_hit (snd (cache (semantic_cache self) ! i)))
                 (now sv 1 - now sv 0) = Inr resp)
       \<and> get_conversation_context (memory self') s = get_conversation_context (memory self) s
       \<and> validate_follow_up_question (memory self') s q'
           = validate_follow_up_question (memory self) s q'"
proof (cases "get_similar_query sv (semantic_cache self) q")
  case (Inl err)
  from ask_lookup_raises[OF this] returned show ?thesis by simp
next
  case (Inr p)
  obtain c1 r where p: "p = (c1, r)" by (cases p)
  show ?thesis
  proof (cases r)
    case None
    with Inr p have miss: "get_similar_query sv (semantic_cache self) q = Inr (c1, None)" by simp
    show ?thesis
    proof (cases "generate_sql_with_structured_output sv self q [] (Some (session_of sv sid))")
      case (Inl err)
      from ask_generation_raises[OF miss this] returned show ?thesis by simp
    next
      case (Inr sq)
      from ask_miss[OF miss this] returned cached show ?thesis
        by (auto simp: build_response_cached)
    qed
  next
    case (Some e)
    with Inr p have hit: "get_similar_query sv (semantic_cache self) q = Inr (c1, Some e)" by simp
    from ask_hit[OF hit] returned have s: "self' = self\<lparr>semantic_cache := c1\<rparr>"
      and r: "cached_response q e (now sv 1 - now sv 0) = Inr resp" by simp_all
    from get_similar_query_hit_best[OF hit] obtain qe i where enc: "encode sv q = Inr qe"
      and best: "is_best_match sv qe (similarity_threshold (semantic_cache self))
                 (map snd (cache (semantic_cache self))) i"
      and c1: "c1 = (semantic_cache self)\<lparr>cache := (cache (semantic_cache self))
                 [i := (fst (cache (semantic_cache self) ! i),
                        count_hit (snd (cache (semantic_cache self) ! i)))]\<rparr>"
      and e: "e = count_hit (snd (cache (semantic_cache self) ! i))"
      by blast
    from is_best_match_bound[OF best] have i: "i < length (cache (semantic_cache self))" by simp
    have m: "memory self' = memory self \<and> executed self' = executed self \<and> bi self' = bi self
       \<and> similarity_threshold (semantic_cache self') = similarity_threshold (semantic_cache self)"
      by (simp add: s c1)
    have c: "cache (semantic_cache self') =
                 (cache (semantic_cache self))
                   [i := (fst (cache (semantic_cache self) ! i),
                          count_hit (snd (cache (semantic_cache self) ! i)))]"
      by (simp add: s c1)
    from m enc best i c r[unfolded e] show ?thesis by auto
  qed
qed

text \<open>
  C9 on a cache of three entries: the question matches the second entry, whose hit
  count alone changes, and the response is built from it.
\<close>

theorem cache_hit_frame_witness:
  "ask demo_services cached_chatbot ''revenue por region'' (Some ''s1'')
     = (cached_chatbot\<lparr>semantic_cache :=
          demo_cache\<lparr>cache := [(''k0'', demo_entry [0, 1] ''SELECT 0''),
                               (''k1'', (demo_entry [2, 0] ''SELECT 1'')\<lparr>hit_count := 1\<rparr>),
                               (''k2'', demo_entry [1, 0] ''SELECT 2'')]\<rparr>\<rparr>,
        Inr [(''question'', VStr ''revenue por region''),
             (''answer'', VStr ''stored''),
             (''data'', VList []),
             (''insights'', VDict []),
             (''sql_used'', VStr ''SELECT 1''),
             (''cached'', VBool True),
             (''execution_time'', VFloat 1)])
   \<and> encode demo_services ''revenue por region'' = Inr [1, 0]
   \<and> is_best_match demo_services [1, 0] (similarity_threshold (semantic_cache cached_chatbot))
        (map snd (cache (semantic_cache cached_chatbot))) 1
   \<and> memory (fst (ask demo_services cached_chatbot ''revenue por region'' (Some ''s1'')))
        = memory cached_chatbot
   \<and> executed (fst (ask demo_services cached_chatbot ''revenue por region'' (Some ''s1'')))
        = executed cached_chatbot
   \<and> cache (semantic_cache
        (fst (ask demo_services cached_chatbot ''revenue por region'' (Some ''s1''))))
        = (cache (semantic_cache cached_chatbot))
            [1 := (''k1'', count_hit (snd (cache (semantic_cache cached_chatbot) ! 1)))]"
proof -
  note s = demo_similarities[OF demo_arith(1,2)]
  have a: "ask demo_services cached_chatbot ''revenue por region'' (Some ''s1'')
     = (cached_chatbot\<lparr>semantic_cache :=
          demo_cache\<lparr>cache := [(''k0'', demo_entry [0, 1] ''SELECT 0''),
                               (''k1'', (demo_entry [2, 0] ''SELECT 1'')\<lparr>hit_count := 1\<rparr>),
                               (''k2'', demo_entry [1, 0] ''SELECT 2'')]\<rparr>\<rparr>,
        Inr [(''question'', VStr ''revenue por region''),
             (''answer'', VStr ''stored''),
             (''data'', VList []),
             (''insights'', VDict []),
             (''sql_used'', VStr ''SELECT 1''),
             (''cached'', VBool True),
             (''execution_time'', VFloat 1)])"
    unfolding ask_hit[OF cached_lookup]
    by (simp add: cached_response_def demo_entry_def demo_fields count_hit_def)
  have c: "dict_get [(''question'', VStr ''revenue por region''),
             (''answer'', VStr ''stored''),
             (''data'', VList []),
             (''insights'', VDict []),
             (''sql_used'', VStr ''SELECT 1''),
             (''cached'', VBool True),
             (''execution_time'', VFloat 1)] ''cached'' = Some (VBool True)"
    by simp
  have e: "encode demo_services ''revenue por region'' = Inr [1, 0]"
    by (simp add: demo_fields demo_encode_def)
  have b: "is_best_match demo_services [1, 0] (similarity_threshold (semantic_cache cached_chatbot))
        (map snd (cache (semantic_cache cached_chatbot))) 1"
    by (simp add: is_best_match_def cached_chatbot_def demo_cache_def s qualifies_def demo_arith)
  from cache_hit_frame[OF a c] obtain qe i where
    m: "memory (fst (ask demo_services cached_chatbot ''revenue por region'' (Some ''s1'')))
        = memory cached_chatbot
     \<and> executed (fst (ask demo_services cached_chatbot ''revenue por region'' (Some ''s1'')))
        = executed cached_chatbot"
    and qe: "encode demo_services ''revenue por region'' = Inr qe"
    and i: "is_best_match demo_services qe (similarity_threshold (semantic_cache cached_chatbot))
        (map snd (cache (semantic_cache cached_chatbot))) i"
    and u: "cache (semantic_cache
        (fst (ask demo_services cached_chatbot ''revenue por region'' (Some ''s1''))))
        = (cache (semantic_cache cached_chatbot))
            [i := (fst (cache (semantic_cache cached_chatbot) ! i),
                   count_hit (snd (cache (semantic_cache cached_chatbot) ! i)))]"
    by (auto simp: a)
  from qe e have "qe = [1, 0]" by simp
  with i b have "i = 1" by (auto intro: is_best_match_unique)
  with u have "cache (semantic_cache
        (fst (ask demo_services cached_chatbot ''revenue por region'' (Some ''s1''))))
        = (cache (semantic_cache cached_chatbot))
            [1 := (''k1'', count_hit (snd (cache (semantic_cache cached_chatbot) ! 1)))]"
    by (simp add: cached_chatbot_def demo_cache_def)
  with a e b m show ?thesis by blast
qed

section \<open>C10: one entry per key\<close>

text \<open>
  C10. An entry is kept under the key of its question, the hexadecimal form of the
  md5 digest of the lower-cased, stripped text, so that the cache tells questions
  apart by that digest. The keys of the cache stay distinct and the key of a stored
  question holds exactly one entry; of two stores whose questions are equal after
  lower-casing and stripping, the second replaces the entry of the first where it
  stands, with hit count 0 and its own timestamp; a store leaves every entry under
  another key untouched, and the threshold too; and of two stores whose normalised
  questions have different digests, the second leaves the entry of the first as it
  was stored.
\<close>

theorem store_query_keyed:
  assumes first: "store_query sv c q1 s1 r1 t1 = Inr c1"
    and second: "store_query sv c1 q2 s2 r2 t2 = Inr c2"
  shows "(distinct (map fst (cache c)) \<longrightarrow>
            distinct (map fst (cache c1)) \<and> distinct (map fst (cache c2)))
       \<and> (strip (lower q1) = strip (lower q2) \<longrightarrow>
            get_query_key sv q1 = get_query_key sv q2
            \<and> map fst (cache c2) = map fst (cache c1)
            \<and> (\<exists>emb. encode sv q2 = Inr emb
                  \<and> dict_get (cache c2) (get_query_key sv q1) =
                      Some \<lparr>query_embedding = emb, sql_query = s2, results = r2,
                            entry_timestamp = t2, hit_count = 0\<rparr>))
       \<and> (\<forall>k. k \<noteq> get_query_key sv q2 \<longrightarrow> dict_get (cache c2) k = dict_get (cache c1) k)
       \<and> similarity_threshold c2 = similarity_threshold c
       \<and> (distinct (map fst (cache c)) \<longrightarrow>
            length (filter (\<lambda>p. fst p = get_query_key sv q1) (cache c1)) = 1
            \<and> length (filter (\<lambda>p. fst p = get_query_key sv q1) (cache c2)) = 1
            \<and> length (filter (\<lambda>p. fst p = get_query_key sv q2) (cache c2)) = 1)
       \<and> (md5 sv (strip (lower q1)) \<noteq> md5 sv (strip (lower q2)) \<longrightarrow>
            get_query_key sv q1 \<noteq> get_query_key sv q2
            \<and> (\<exists>emb. encode sv q1 = Inr emb
                  \<and> dict_get (cache c2) (get_query_key sv q1) =
                      Some \<lparr>query_embedding = emb, sql_query = s1, results = r1,
                            entry_timestamp = t1, hit_count = 0\<rparr>))"
proof -
  from store_query_Inr[OF first] obtain e1 where e1: "encode sv q1 = Inr e1"
    and c1: "c1 = c\<lparr>cache := dict_set (get_query_key sv q1)
              \<lparr>query_embedding = e1, sql_query = s1, results = r1, entry_timestamp = t1,
               hit_count = 0\<rparr> (cache c)\<rparr>" by blast
  from store_query_Inr[OF second] obtain e2 where e2: "encode sv q2 = Inr e2"
    and c2: "c2 = c1\<lparr>cache := dict_set (get_query_key sv q2)
              \<lparr>query_embedding = e2, sql_query = s2, results = r2, entry_timestamp = t2,
               hit_count = 0\<rparr> (cache c1)\<rparr>" by blast
  have a: "distinct (map fst (cache c)) \<longrightarrow>
            distinct (map fst (cache c1)) \<and> distinct (map fst (cache c2))"
    by (simp add: c1 c2 dict_set_distinct)
  have b: "get_query_key sv q1 = get_query_key sv q2
            \<and> map fst (cache c2) = map fst (cache c1)
            \<and> (\<exists>emb. encode sv q2 = Inr emb
                  \<and> dict_get (cache c2) (get_query_key sv q1) =
                      Some \<lparr>query_embedding = emb, sql_query = s2, results = r2,
                            entry_timestamp = t2, hit_count = 0\<rparr>)"
    if n: "strip (lower q1) = strip (lower q2)"
  proof -
    from n have k: "get_query_key sv q1 = get_query_key sv q2"
      by (simp add: get_query_key_def)
    have "dict_get (cache c1) (get_query_key sv q2) \<noteq> None"
      by (simp add: c1 k[symmetric] dict_get_set_same)
    then have "map fst (cache c2) = map fst (cache c1)"
      by (simp add: c2 dict_set_keys_present)
    with k e2 show ?thesis by (simp add: c2 dict_get_set_same)
  qed
  have d: "\<forall>k. k \<noteq> get_query_key sv q2 \<longrightarrow> dict_get (cache c2) k = dict_get (cache c1) k"
    by (simp add: c2 dict_get_set_other)
  have t: "similarity_threshold c2 = similarity_threshold c"
    by (simp add: c1 c2)
  have g1: "dict_get (cache c1) (get_query_key sv q1) \<noteq> None"
    by (simp add: c1 dict_get_set_same)
  have g2: "dict_get (cache c2) (get_query_key sv q2) \<noteq> None"
    by (simp add: c2 dict_get_set_same)
  have g12: "dict_get (cache c2) (get_query_key sv q1) \<noteq> None"
  proof (cases "get_query_key sv q1 = get_query_key sv q2")
    case True
    with g2 show ?thesis by simp
  next
    case False
    with d g1 show ?thesis by simp
  qed
  have o: "length (filter (\<lambda>p. fst p = get_query_key sv q1) (cache c1)) = 1
         \<and> length (filter (\<lambda>p. fst p = get_query_key sv q1) (cache c2)) = 1
         \<and> length (filter (\<lambda>p. fst p = get_query_key sv q2) (cache c2)) = 1"
    if dc: "distinct (map fst (cache c))"
  proof -
    from a dc have d1: "distinct (map fst (cache c1))" and d2: "distinct (map fst (cache c2))"
      by simp_all
    from distinct_key_one_entry[OF d1 g1] distinct_key_one_entry[OF d2 g12]
      distinct_key_one_entry[OF d2 g2]
    show ?thesis by simp
  qed
  have f: "get_query_key sv q1 \<noteq> get_query_key sv q2
         \<and> (\<exists>emb. encode sv q1 = Inr emb
               \<and> dict_get (cache c2) (get_query_key sv q1) =
                   Some \<lparr>query_embedding = emb, sql_query = s1, results = r1,
                         entry_timestamp = t1, hit_count = 0\<rparr>)"
    if nd: "md5 sv (strip (lower q1)) \<noteq> md5 sv (strip (lower q2))"
  proof -
    from nd have ne: "get_query_key sv q1 \<noteq> get_query_key sv q2"
      by (simp add: get_query_key_eq_iff)
    from d ne have "dict_get (cache c2) (get_query_key sv q1)
        = dict_get (cache c1) (get_query_key sv q1)" by simp
    with e1 ne show ?thesis by (simp add: c1 dict_get_set_same)
  qed
  from a b d t o f show ?thesis by blast
qed

text \<open>
  C10 on three stores: one question written in two ways, the second store replacing
  the entry of the first, and another question, whose store leaves that entry as it
  is.
\<close>

theorem store_query_keyed_witness:
  "store_query demo_services empty_cache ''Hola '' ''SELECT 1'' [] 1 = Inr stored_once
   \<and> store_query demo_services stored_once '' hola'' ''SELECT 2'' [] 2 = Inr stored_twice
   \<and> store_query demo_services stored_once ''adios'' ''SELECT 3'' [] 3 = Inr stored_other
   \<and> distinct (map fst (cache empty_cache))
   \<and> strip (lower ''Hola '') = strip (lower '' hola'')
   \<and> md5 demo_services (strip (lower ''Hola '')) \<noteq> md5 demo_services (strip (lower ''adios''))
   \<and> distinct (map fst (cache stored_twice))
   \<and> map fst (cache stored_twice) = map fst (cache stored_once)
   \<and> length (cache stored_twice) = 1
   \<and> dict_get (cache stored_twice) (get_query_key demo_services ''Hola '') =
        Some \<lparr>query_embedding = [0, 1], sql_query = ''SELECT 2'', results = [],
              entry_timestamp = 2, hit_count = 0\<rparr>
   \<and> length (cache stored_other) = 2
   \<and> dict_get (cache stored_other) (get_query_key demo_services ''Hola '') =
        Some \<lparr>query_embedding = [0, 1], sql_query = ''SELECT 1'', results = [],
              entry_timestamp = 1, hit_count = 0\<rparr>
   \<and> dict_get (cache stored_other) (get_query_key demo_services ''adios'') =
        Some \<lparr>query_embedding = [0, 1], sql_query = ''SELECT 3'', results = [],
              entry_timestamp = 3, hit_count = 0\<rparr>"
proof -
  have a: "store_query demo_services empty_cache ''Hola '' ''SELECT 1'' [] 1 = Inr stored_once"
    by (simp add: store_query_def demo_keys demo_fields demo_encode_def empty_cache_def
        stored_once_def)
  have b: "store_query demo_services stored_once '' hola'' ''SELECT 2'' [] 2 = Inr stored_twice"
    by (simp add: store_query_def demo_keys demo_fields demo_encode_def stored_once_def
        stored_twice_def)
  have b': "store_query demo_services stored_once ''adios'' ''SELECT 3'' [] 3 = Inr stored_other"
    by (simp add: store_query_def demo_keys demo_fields demo_encode_def stored_once_def
        stored_other_def)
  have d: "distinct (map fst (cache empty_cache))" by (simp add: empty_cache_def)
  have n: "strip (lower ''Hola '') = strip (lower '' hola'')" by (simp add: demo_keys)
  have k: "md5 demo_services (strip (lower ''Hola '')) \<noteq> md5 demo_services (strip (lower ''adios''))"
    unfolding demo_md5 by code_simp
  have e: "encode demo_services ''Hola '' = Inr [0, 1]"
    by (simp add: demo_fields demo_encode_def)
  from store_query_keyed[OF a b] d n
  have x: "distinct (map fst (cache stored_twice))
   \<and> map fst (cache stored_twice) = map fst (cache stored_once)"
    by blast
  from store_query_keyed[OF a b'] k e
  have y: "dict_get (cache stored_other) (get_query_key demo_services ''Hola '') =
        Some \<lparr>query_embedding = [0, 1], sql_query = ''SELECT 1'', results = [],
              entry_timestamp = 1, hit_count = 0\<rparr>"
    by auto
  have z: "dict_get (cache stored_twice) (get_query_key demo_services ''Hola '') =
        Some \<lparr>query_embedding = [0, 1], sql_query = ''SELECT 2'', results = [],
              entry_timestamp = 2, hit_count = 0\<rparr>
     \<and> dict_get (cache stored_other) (get_query_key demo_services ''adios'') =
        Some \<lparr>query_embedding = [0, 1], sql_query = ''SELECT 3'', results = [],
              entry_timestamp = 3, hit_count = 0\<rparr>
     \<and> length (cache stored_twice) = 1 \<and> length (cache stored_other) = 2"
    by (simp add: demo_keys stored_twice_def stored_other_def)
  from a b b' d n k x y z show ?thesis by blast
qed

end
